theory Spec2Isabelle
  imports Complex_Main "HOL-Library.AList"
begin

section \<open>Python values\<close>

text \<open>
  The bridge moves dynamically typed values between JSON text, the command line and the
  MetaTrader5 package. A Python float is a finite number, an infinity or NaN; no
  arithmetic is done on floats anywhere in the two files, only comparisons with zero and
  conversions, so a finite float is represented by the rational it denotes.
\<close>

datatype pyfloat = Finite rat | PosInf | NegInf | NaN

datatype pyval =
    PNone
  | PBool bool
  | PInt int
  | PFloat pyfloat
  | PStr string
  | PList "pyval list"
  | PDict "(string \<times> pyval) list"

text \<open>A number as \<open>main\<close> passes it to \<open>place_order\<close>: a parsed float, or the int default 0.\<close>

datatype pynum = NInt int | NFloat pyfloat

datatype exn_class =
    TypeError | ValueError | IndexError | KeyError | AttributeError | OverflowError
  | JSONDecodeError | RecursionError | ConnectionClosed | OtherError

text \<open>An exception is its class and the text \<open>str(e)\<close> gives. Every class is a subclass of
  \<open>Exception\<close>.\<close>

datatype exn = Exn exn_class string

fun exn_class_of :: "exn \<Rightarrow> exn_class" where
  "exn_class_of (Exn c m) = c"

fun str_exn :: "exn \<Rightarrow> string" where
  "str_exn (Exn c m) = m"

fun float_gt0 :: "pyfloat \<Rightarrow> bool" where
  "float_gt0 (Finite r) = (0 < r)"
| "float_gt0 PosInf = True"
| "float_gt0 NegInf = False"
| "float_gt0 NaN = False"

fun num_gt0 :: "pynum \<Rightarrow> bool" where
  "num_gt0 (NInt i) = (0 < i)"
| "num_gt0 (NFloat f) = float_gt0 f"

fun num_val :: "pynum \<Rightarrow> pyval" where
  "num_val (NInt i) = PInt i"
| "num_val (NFloat f) = PFloat f"

definition quoted :: "string \<Rightarrow> string" where
  "quoted s = CHR 0x27 # s @ [CHR 0x27]"

fun type_name :: "pyval \<Rightarrow> string" where
  "type_name PNone = ''NoneType''"
| "type_name (PBool b) = ''bool''"
| "type_name (PInt i) = ''int''"
| "type_name (PFloat f) = ''float''"
| "type_name (PStr s) = ''str''"
| "type_name (PList xs) = ''list''"
| "type_name (PDict kvs) = ''dict''"

fun truthy :: "pyval \<Rightarrow> bool" where
  "truthy PNone = False"
| "truthy (PBool b) = b"
| "truthy (PInt i) = (i \<noteq> 0)"
| "truthy (PFloat f) = (f \<noteq> Finite 0)"
| "truthy (PStr s) = (s \<noteq> [])"
| "truthy (PList xs) = (xs \<noteq> [])"
| "truthy (PDict kvs) = (kvs \<noteq> [])"

subsection \<open>Decimal text of an int\<close>

function str_nat :: "nat \<Rightarrow> string" where
  "str_nat n =
     (if n < 10 then [''0123456789'' ! n]
      else str_nat (n div 10) @ [''0123456789'' ! (n mod 10)])"
  by pat_completeness auto
termination
  by (relation "measure id") auto

declare str_nat.simps [simp del]

definition str_int :: "int \<Rightarrow> string" where
  "str_int i = (if i < 0 then CHR ''-'' # str_nat (nat (- i)) else str_nat (nat i))"

subsection \<open>Built-ins of the interpreter\<close>

text \<open>
  What CPython's own \<open>int()\<close>, \<open>float()\<close>, \<open>repr()\<close> and \<open>json.loads\<close> compute on text is
  not code of the bridge; the model takes them as parameters. \<open>None\<close> from a parser stands
  for the \<open>ValueError\<close> (\<open>OverflowError\<close> for \<open>b_float_of_int\<close>) the built-in raises.
  \<open>b_module\<close> is the name of the module the server class is defined in (\<open>__main__\<close> when
  the file is run as a script); \<open>b_arity_text\<close> is what the interpreter says after the
  method's name when it is called with the wrong number of positional arguments.
\<close>

record builtins =
  b_int_of_str :: "string \<Rightarrow> int option"
  b_float_of_str :: "string \<Rightarrow> pyfloat option"
  b_float_of_int :: "int \<Rightarrow> pyfloat option"
  b_repr :: "pyval \<Rightarrow> string"
  b_module :: string
  b_arity_text :: "string \<Rightarrow> nat \<Rightarrow> string"
  b_json_loads :: "string \<Rightarrow> exn + pyval"

text \<open>\<open>str(x)\<close>, as an f-string formats a value.\<close>

fun py_str :: "builtins \<Rightarrow> pyval \<Rightarrow> string" where
  "py_str B (PStr s) = s"
| "py_str B PNone = ''None''"
| "py_str B (PBool b) = (if b then ''True'' else ''False'')"
| "py_str B (PInt i) = str_int i"
| "py_str B v = b_repr B v"

text \<open>\<open>int(x)\<close>: truncation toward zero on a float, parsing on a string.\<close>

fun py_int :: "builtins \<Rightarrow> pyval \<Rightarrow> exn + int" where
  "py_int B (PInt i) = Inr i"
| "py_int B (PBool b) = Inr (if b then 1 else 0)"
| "py_int B (PFloat (Finite r)) = Inr (if 0 \<le> r then \<lfloor>r\<rfloor> else \<lceil>r\<rceil>)"
| "py_int B (PFloat NaN) = Inl (Exn ValueError ''cannot convert float NaN to integer'')"
| "py_int B (PFloat f) = Inl (Exn OverflowError ''cannot convert float infinity to integer'')"
| "py_int B (PStr s) =
     (case b_int_of_str B s of
        Some i \<Rightarrow> Inr i
      | None \<Rightarrow> Inl (Exn ValueError
          (''invalid literal for int() with base 10: '' @ b_repr B (PStr s))))"
| "py_int B v =
     Inl (Exn TypeError
       (''int() argument must be a string, a bytes-like object or a real number, not '' @
        quoted (type_name v)))"

text \<open>\<open>float(x)\<close>.\<close>

fun py_float :: "builtins \<Rightarrow> pyval \<Rightarrow> exn + pyfloat" where
  "py_float B (PFloat f) = Inr f"
| "py_float B (PInt i) =
     (case b_float_of_int B i of
        Some f \<Rightarrow> Inr f
      | None \<Rightarrow> Inl (Exn OverflowError ''int too large to convert to float''))"
| "py_float B (PBool b) = Inr (Finite (if b then 1 else 0))"
| "py_float B (PStr s) =
     (case b_float_of_str B s of
        Some f \<Rightarrow> Inr f
      | None \<Rightarrow> Inl (Exn ValueError
          (''could not convert string to float: '' @ b_repr B (PStr s))))"
| "py_float B v =
     Inl (Exn TypeError
       (''float() argument must be a string or a real number, not '' @
        quoted (type_name v)))"

text \<open>\<open>d.get(k, default)\<close>: only a dict has the method.\<close>

fun dict_get :: "pyval \<Rightarrow> string \<Rightarrow> pyval \<Rightarrow> exn + pyval" where
  "dict_get (PDict kvs) k dflt = Inr (case map_of kvs k of Some v \<Rightarrow> v | None \<Rightarrow> dflt)"
| "dict_get v k dflt =
     Inl (Exn AttributeError
       (quoted (type_name v) @ '' object has no attribute '' @ quoted ''get''))"

text \<open>\<open>d[k]\<close> on a result dictionary.\<close>

fun subscript :: "pyval \<Rightarrow> string \<Rightarrow> exn + pyval" where
  "subscript (PDict kvs) k =
     (case map_of kvs k of
        Some v \<Rightarrow> Inr v
      | None \<Rightarrow> Inl (Exn KeyError (quoted k)))"
| "subscript v k =
     Inl (Exn TypeError
       (quoted (type_name v) @ '' object is not subscriptable''))"

text \<open>\<open>'USD' in name\<close>: substring test.\<close>

fun contains :: "string \<Rightarrow> string \<Rightarrow> bool" where
  "contains sub [] = (sub = [])"
| "contains sub (c # cs) = (take (length sub) (c # cs) = sub \<or> contains sub cs)"

section \<open>The terminal\<close>

text \<open>Records the MetaTrader5 package hands back (named tuples and numpy rows).\<close>

record account_info =
  ai_login :: int
  ai_balance :: pyfloat
  ai_equity :: pyfloat
  ai_margin :: pyfloat
  ai_server :: string
  ai_leverage :: int
  ai_currency :: string

record symbol_info =
  si_name :: string
  si_description :: string
  si_spread :: int
  si_volume_min :: pyfloat
  si_volume_max :: pyfloat
  si_visible :: bool

record rate =
  r_time :: int
  r_open :: pyfloat
  r_high :: pyfloat
  r_low :: pyfloat
  r_close :: pyfloat
  r_tick_volume :: int
  r_spread :: int

record tick =
  tk_bid :: pyfloat
  tk_ask :: pyfloat
  tk_last :: pyfloat
  tk_volume :: int
  tk_time :: int

record order_result =
  or_retcode :: int
  or_order :: int
  or_volume :: pyfloat
  or_price :: pyfloat
  or_comment :: string

record position =
  pos_ticket :: int
  pos_symbol :: string
  pos_type :: int
  pos_volume :: pyfloat
  pos_price_open :: pyfloat
  pos_price_current :: pyfloat
  pos_profit :: pyfloat
  pos_swap :: pyfloat
  pos_commission :: pyfloat

text \<open>Constants of the MetaTrader5 package, with the package's values.\<close>

definition TRADE_ACTION_DEAL :: int where "TRADE_ACTION_DEAL = 1"
definition ORDER_TIME_GTC :: int where "ORDER_TIME_GTC = 0"
definition ORDER_FILLING_IOC :: int where "ORDER_FILLING_IOC = 1"
definition ORDER_TYPE_BUY :: int where "ORDER_TYPE_BUY = 0"
definition ORDER_TYPE_SELL :: int where "ORDER_TYPE_SELL = 1"
definition TRADE_RETCODE_DONE :: int where "TRADE_RETCODE_DONE = 10009"
definition TIMEFRAME_M1 :: int where "TIMEFRAME_M1 = 1"
definition TIMEFRAME_M5 :: int where "TIMEFRAME_M5 = 5"
definition TIMEFRAME_M15 :: int where "TIMEFRAME_M15 = 15"
definition TIMEFRAME_H1 :: int where "TIMEFRAME_H1 = 16385"
definition TIMEFRAME_H4 :: int where "TIMEFRAME_H4 = 16388"
definition TIMEFRAME_D1 :: int where "TIMEFRAME_D1 = 16408"

text \<open>
  A call into the package, with the arguments the bridge passes. The bridge's state is
  the list of calls made so far and what it has emitted (lines on standard output for
  the one-shot executor, messages sent on the connection for the server).
\<close>

datatype call =
    CInitialize
  | CLastError
  | CAccountInfo
  | CLogin int pyval pyval
  | CShutdown
  | CSymbolsGet
  | CCopyRatesFromPos pyval int int int
  | CSymbolInfoTick pyval
  | COrderSend "(string \<times> pyval) list"
  | CPositionsGet
  | CPositionsGetTicket int

record world =
  calls :: "call list"
  out :: "pyval list"

text \<open>
  The terminal is any function from the calls made before to the answer of the next
  one: a value, or an exception. \<open>t_last_error\<close> answers with the text an f-string
  gives the error tuple.
\<close>

record terminal =
  t_initialize :: "call list \<Rightarrow> exn + bool"
  t_last_error :: "call list \<Rightarrow> exn + string"
  t_account_info :: "call list \<Rightarrow> exn + account_info option"
  t_login :: "call list \<Rightarrow> int \<Rightarrow> pyval \<Rightarrow> pyval \<Rightarrow> exn + bool"
  t_shutdown :: "call list \<Rightarrow> exn + unit"
  t_symbols_get :: "call list \<Rightarrow> exn + symbol_info list option"
  t_copy_rates_from_pos :: "call list \<Rightarrow> pyval \<Rightarrow> int \<Rightarrow> int \<Rightarrow> int \<Rightarrow> exn + rate list option"
  t_symbol_info_tick :: "call list \<Rightarrow> pyval \<Rightarrow> exn + tick option"
  t_order_send :: "call list \<Rightarrow> (string \<times> pyval) list \<Rightarrow> exn + order_result option"
  t_positions_get :: "call list \<Rightarrow> exn + position list option"
  t_positions_get_ticket :: "call list \<Rightarrow> int \<Rightarrow> exn + position list option"

section \<open>Effects: state passing with exceptions\<close>

type_synonym 'a io = "world \<Rightarrow> (exn + 'a) \<times> world"

definition ret :: "'a \<Rightarrow> 'a io" where
  "ret x w = (Inr x, w)"

definition raise :: "exn \<Rightarrow> 'a io" where
  "raise e w = (Inl e, w)"

definition lift :: "exn + 'a \<Rightarrow> 'a io" where
  "lift r w = (r, w)"

definition bnd :: "'a io \<Rightarrow> ('a \<Rightarrow> 'b io) \<Rightarrow> 'b io" where
  "bnd m f w = (case m w of (Inl e, w') \<Rightarrow> (Inl e, w') | (Inr x, w') \<Rightarrow> f x w')"

text \<open>\<open>try: m except Exception as e: handler e\<close>.\<close>

definition try_except :: "'a io \<Rightarrow> (exn \<Rightarrow> 'a io) \<Rightarrow> 'a io" where
  "try_except m handler w = (case m w of (Inl e, w') \<Rightarrow> handler e w' | (Inr x, w') \<Rightarrow> (Inr x, w'))"

text \<open>\<open>try: m finally: fin\<close>: the final block runs on both exits; if it raises, its
  exception is the one that leaves.\<close>

definition try_finally :: "'a io \<Rightarrow> unit io \<Rightarrow> 'a io" where
  "try_finally m fin w =
     (case m w of (r, w') \<Rightarrow>
        (case fin w' of (Inl e, w'') \<Rightarrow> (Inl e, w'') | (Inr u, w'') \<Rightarrow> (r, w'')))"

definition called :: "call \<Rightarrow> world \<Rightarrow> world" where
  "called c w = w\<lparr>calls := calls w @ [c]\<rparr>"

definition mt5_initialize :: "terminal \<Rightarrow> bool io" where
  "mt5_initialize T w = (t_initialize T (calls w), called CInitialize w)"

definition mt5_last_error :: "terminal \<Rightarrow> string io" where
  "mt5_last_error T w = (t_last_error T (calls w), called CLastError w)"

definition mt5_account_info :: "terminal \<Rightarrow> account_info option io" where
  "mt5_account_info T w = (t_account_info T (calls w), called CAccountInfo w)"

definition mt5_login :: "terminal \<Rightarrow> int \<Rightarrow> pyval \<Rightarrow> pyval \<Rightarrow> bool io" where
  "mt5_login T l p s w = (t_login T (calls w) l p s, called (CLogin l p s) w)"

definition mt5_shutdown :: "terminal \<Rightarrow> unit io" where
  "mt5_shutdown T w = (t_shutdown T (calls w), called CShutdown w)"

definition mt5_symbols_get :: "terminal \<Rightarrow> symbol_info list option io" where
  "mt5_symbols_get T w = (t_symbols_get T (calls w), called CSymbolsGet w)"

definition mt5_copy_rates_from_pos ::
  "terminal \<Rightarrow> pyval \<Rightarrow> int \<Rightarrow> int \<Rightarrow> int \<Rightarrow> rate list option io" where
  "mt5_copy_rates_from_pos T s tf start n w =
     (t_copy_rates_from_pos T (calls w) s tf start n, called (CCopyRatesFromPos s tf start n) w)"

definition mt5_symbol_info_tick :: "terminal \<Rightarrow> pyval \<Rightarrow> tick option io" where
  "mt5_symbol_info_tick T s w = (t_symbol_info_tick T (calls w) s, called (CSymbolInfoTick s) w)"

definition mt5_order_send :: "terminal \<Rightarrow> (string \<times> pyval) list \<Rightarrow> order_result option io" where
  "mt5_order_send T req w = (t_order_send T (calls w) req, called (COrderSend req) w)"

definition mt5_positions_get :: "terminal \<Rightarrow> position list option io" where
  "mt5_positions_get T w = (t_positions_get T (calls w), called CPositionsGet w)"

definition mt5_positions_get_ticket :: "terminal \<Rightarrow> int \<Rightarrow> position list option io" where
  "mt5_positions_get_ticket T n w =
     (t_positions_get_ticket T (calls w) n, called (CPositionsGetTicket n) w)"

text \<open>\<open>print(json.dumps(x))\<close>, and \<open>await websocket.send(json.dumps(x))\<close>.\<close>

definition emit :: "pyval \<Rightarrow> unit io" where
  "emit x w = (Inr (), w\<lparr>out := out w @ [x]\<rparr>)"

section \<open>The terminal adapter (functions both files define with the same body)\<close>

definition failure :: "string \<Rightarrow> pyval" where
  "failure msg = PDict [(''success'', PBool False), (''error'', PStr msg)]"

definition account_dict :: "account_info \<Rightarrow> pyval" where
  "account_dict a =
     PDict [(''login'', PInt (ai_login a)),
            (''balance'', PFloat (ai_balance a)),
            (''equity'', PFloat (ai_equity a)),
            (''margin'', PFloat (ai_margin a)),
            (''server'', PStr (ai_server a)),
            (''leverage'', PInt (ai_leverage a)),
            (''currency'', PStr (ai_currency a))]"

text \<open>\<open>connect_mt5\<close> (mt5_bridge.py 8-29, mt5_bridge_server.py 101-121).\<close>

definition connect_mt5 :: "terminal \<Rightarrow> pyval io" where
  "connect_mt5 T =
     bnd (mt5_initialize T) (\<lambda>ok.
       if \<not> ok then
         bnd (mt5_last_error T) (\<lambda>err.
           ret (failure (''initialize() failed, error code = '' @ err)))
       else
         bnd (mt5_account_info T) (\<lambda>account_info.
           case account_info of
             None \<Rightarrow> ret (failure ''Failed to get account info'')
           | Some a \<Rightarrow> ret (PDict [(''success'', PBool True), (''account'', account_dict a)])))"

text \<open>\<open>connect_with_credentials\<close> (mt5_bridge.py 31-64, mt5_bridge_server.py 123-152).\<close>

definition connect_with_credentials ::
  "builtins \<Rightarrow> terminal \<Rightarrow> pyval \<Rightarrow> pyval \<Rightarrow> pyval \<Rightarrow> pyval io" where
  "connect_with_credentials B T login password server =
     bnd (mt5_shutdown T) (\<lambda>u.
     bnd (mt5_initialize T) (\<lambda>ok.
       if \<not> ok then
         bnd (mt5_last_error T) (\<lambda>err.
           ret (failure (''initialize() failed, error code = '' @ err)))
       else
         bnd (lift (py_int B login)) (\<lambda>n.
         bnd (mt5_login T n password server) (\<lambda>login_result.
           if \<not> login_result then
             bnd (mt5_last_error T) (\<lambda>error_code.
             bnd (mt5_shutdown T) (\<lambda>u.
               ret (failure (''Login failed, error code = '' @ error_code))))
           else
             bnd (mt5_account_info T) (\<lambda>account_info.
               case account_info of
                 None \<Rightarrow>
                   bnd (mt5_shutdown T) (\<lambda>u.
                     ret (failure ''Failed to get account info after login''))
               | Some a \<Rightarrow>
                   ret (PDict [(''success'', PBool True), (''account'', account_dict a)]))))))"

definition symbol_dict :: "symbol_info \<Rightarrow> pyval" where
  "symbol_dict s =
     PDict [(''name'', PStr (si_name s)),
            (''description'', PStr (si_description s)),
            (''spread'', PInt (si_spread s)),
            (''volume_min'', PFloat (si_volume_min s)),
            (''volume_max'', PFloat (si_volume_max s))]"

text \<open>\<open>get_symbols\<close> (mt5_bridge.py 66-83, mt5_bridge_server.py 154-171): no \<open>try\<close>.\<close>

definition get_symbols :: "terminal \<Rightarrow> pyval io" where
  "get_symbols T =
     bnd (mt5_symbols_get T) (\<lambda>symbols.
       case symbols of
         None \<Rightarrow> ret (failure ''No symbols found'')
       | Some syms \<Rightarrow>
           ret (PDict [(''success'', PBool True),
                       (''symbols'', PList (map symbol_dict
                          (filter (\<lambda>s. si_visible s \<and> contains ''USD'' (si_name s)) syms)))]))"

text \<open>\<open>get_tick_data\<close> (mt5_bridge.py 122-141, mt5_bridge_server.py 207-226).\<close>

definition get_tick_data :: "builtins \<Rightarrow> terminal \<Rightarrow> pyval \<Rightarrow> pyval io" where
  "get_tick_data B T symbol =
     try_except
       (bnd (mt5_symbol_info_tick T symbol) (\<lambda>tick.
          case tick of
            None \<Rightarrow> ret (failure (''Failed to get tick for '' @ py_str B symbol))
          | Some t \<Rightarrow>
              ret (PDict [(''success'', PBool True),
                          (''tick'', PDict [(''symbol'', symbol),
                                            (''bid'', PFloat (tk_bid t)),
                                            (''ask'', PFloat (tk_ask t)),
                                            (''last'', PFloat (tk_last t)),
                                            (''volume'', PInt (tk_volume t)),
                                            (''time'', PInt (tk_time t))])])))
       (\<lambda>e. ret (failure (str_exn e)))"

definition position_dict :: "position \<Rightarrow> pyval" where
  "position_dict pos =
     PDict [(''ticket'', PInt (pos_ticket pos)),
            (''symbol'', PStr (pos_symbol pos)),
            (''type'', PInt (pos_type pos)),
            (''volume'', PFloat (pos_volume pos)),
            (''price_open'', PFloat (pos_price_open pos)),
            (''price_current'', PFloat (pos_price_current pos)),
            (''profit'', PFloat (pos_profit pos)),
            (''swap'', PFloat (pos_swap pos)),
            (''commission'', PFloat (pos_commission pos))]"

text \<open>\<open>get_positions\<close> (mt5_bridge.py 188-211, mt5_bridge_server.py 268-291).\<close>

definition get_positions :: "terminal \<Rightarrow> pyval io" where
  "get_positions T =
     try_except
       (bnd (mt5_positions_get T) (\<lambda>positions.
          case positions of
            None \<Rightarrow> ret (PDict [(''success'', PBool True), (''positions'', PList [])])
          | Some ps \<Rightarrow>
              ret (PDict [(''success'', PBool True),
                          (''positions'', PList (map position_dict ps))])))
       (\<lambda>e. ret (failure (str_exn e)))"

subsection \<open>Pieces shared by the two variants of the remaining operations\<close>

definition tf_map :: "(string \<times> int) list" where
  "tf_map =
     [(''M1'', TIMEFRAME_M1), (''M5'', TIMEFRAME_M5), (''M15'', TIMEFRAME_M15),
      (''H1'', TIMEFRAME_H1), (''H4'', TIMEFRAME_H4), (''D1'', TIMEFRAME_D1)]"

text \<open>\<open>tf_map.get(timeframe, mt5.TIMEFRAME_M1)\<close>: a key that cannot be hashed raises.\<close>

fun tf_map_get :: "pyval \<Rightarrow> exn + int" where
  "tf_map_get (PStr s) = Inr (case map_of tf_map s of Some c \<Rightarrow> c | None \<Rightarrow> TIMEFRAME_M1)"
| "tf_map_get (PList xs) = Inl (Exn TypeError (''unhashable type: '' @ quoted ''list''))"
| "tf_map_get (PDict kvs) = Inl (Exn TypeError (''unhashable type: '' @ quoted ''dict''))"
| "tf_map_get v = Inr TIMEFRAME_M1"

definition rate_dict :: "rate \<Rightarrow> pyval" where
  "rate_dict r =
     PDict [(''time'', PInt (r_time r)),
            (''open'', PFloat (r_open r)),
            (''high'', PFloat (r_high r)),
            (''low'', PFloat (r_low r)),
            (''close'', PFloat (r_close r)),
            (''tick_volume'', PInt (r_tick_volume r)),
            (''spread'', PInt (r_spread r))]"

definition rates_result :: "builtins \<Rightarrow> pyval \<Rightarrow> rate list option \<Rightarrow> pyval" where
  "rates_result B symbol rates =
     (case rates of
        None \<Rightarrow> failure (''Failed to get rates for '' @ py_str B symbol)
      | Some rs \<Rightarrow> PDict [(''success'', PBool True), (''data'', PList (map rate_dict rs))])"

text \<open>The request of \<open>place_order\<close> (lines 147-165, 231-246). \<open>price\<close>, \<open>sl\<close>, \<open>tp\<close> are the
  numbers compared with zero: the arguments themselves in mt5_bridge.py, \<open>float(price)\<close>,
  \<open>float(sl)\<close>, \<open>float(tp)\<close> in the server.\<close>

definition order_request ::
  "pyval \<Rightarrow> pyfloat \<Rightarrow> int \<Rightarrow> pyval \<Rightarrow> pynum \<Rightarrow> pynum \<Rightarrow> pynum \<Rightarrow> (string \<times> pyval) list" where
  "order_request symbol volume order_type comment price sl tp =
     (let request = [(''action'', PInt TRADE_ACTION_DEAL),
                     (''symbol'', symbol),
                     (''volume'', PFloat volume),
                     (''type'', PInt order_type),
                     (''comment'', comment),
                     (''type_time'', PInt ORDER_TIME_GTC),
                     (''type_filling'', PInt ORDER_FILLING_IOC)];
          request = (if num_gt0 price then AList.update ''price'' (num_val price) request
                     else request);
          request = (if num_gt0 sl then AList.update ''sl'' (num_val sl) request
                     else request);
          request = (if num_gt0 tp then AList.update ''tp'' (num_val tp) request
                     else request)
      in request)"

text \<open>What \<open>place_order\<close> does with the terminal's answer (lines 170-184, 250-264).\<close>

definition order_result_dict :: "order_result option \<Rightarrow> pyval" where
  "order_result_dict result =
     (case result of
        None \<Rightarrow> failure ''Order send failed''
      | Some r \<Rightarrow>
          if or_retcode r \<noteq> TRADE_RETCODE_DONE then failure (''Order failed: '' @ or_comment r)
          else PDict [(''success'', PBool True),
                      (''order'', PDict [(''ticket'', PInt (or_order r)),
                                         (''volume'', PFloat (or_volume r)),
                                         (''price'', PFloat (or_price r)),
                                         (''comment'', PStr (or_comment r))])])"

text \<open>The closing request (lines 223-232, 302-311).\<close>

definition close_request :: "position \<Rightarrow> (string \<times> pyval) list" where
  "close_request position =
     [(''action'', PInt TRADE_ACTION_DEAL),
      (''symbol'', PStr (pos_symbol position)),
      (''volume'', PFloat (pos_volume position)),
      (''type'', PInt (if pos_type position = ORDER_TYPE_BUY then ORDER_TYPE_SELL
                       else ORDER_TYPE_BUY)),
      (''position'', PInt (pos_ticket position)),
      (''type_time'', PInt ORDER_TIME_GTC),
      (''type_filling'', PInt ORDER_FILLING_IOC),
      (''comment'', PStr ''Position closed by trading bot'')]"

text \<open>\<open>result.retcode\<close>, \<open>result.comment\<close> on the answer to the closing order (lines
  236-239, 315-318): there is no test for \<open>None\<close>, so the attribute access raises.\<close>

definition close_result :: "pyval \<Rightarrow> order_result option \<Rightarrow> pyval io" where
  "close_result closed_ticket result =
     (case result of
        None \<Rightarrow>
          raise (Exn AttributeError
            (quoted ''NoneType'' @ '' object has no attribute '' @ quoted ''retcode''))
      | Some r \<Rightarrow>
          if or_retcode r \<noteq> TRADE_RETCODE_DONE then
            ret (failure (''Close failed: '' @ or_comment r))
          else ret (PDict [(''success'', PBool True), (''closed_ticket'', closed_ticket)]))"

section \<open>mt5_bridge.py: the one-shot command executor\<close>

text \<open>Arguments have the types \<open>main\<close> passes.\<close>

definition get_market_data :: "builtins \<Rightarrow> terminal \<Rightarrow> pyval \<Rightarrow> pyval \<Rightarrow> int \<Rightarrow> pyval io" where
  "get_market_data B T symbol timeframe count =
     try_except
       (bnd (lift (tf_map_get timeframe)) (\<lambda>timeframe_mt5.
        bnd (mt5_copy_rates_from_pos T symbol timeframe_mt5 0 count) (\<lambda>rates.
          ret (rates_result B symbol rates))))
       (\<lambda>e. ret (failure (str_exn e)))"

definition place_order ::
  "terminal \<Rightarrow> pyval \<Rightarrow> int \<Rightarrow> pyfloat \<Rightarrow> pynum \<Rightarrow> pynum \<Rightarrow> pynum \<Rightarrow> pyval \<Rightarrow> pyval io" where
  "place_order T symbol order_type volume price sl tp comment =
     try_except
       (bnd (mt5_order_send T (order_request symbol volume order_type comment price sl tp))
          (\<lambda>result. ret (order_result_dict result)))
       (\<lambda>e. ret (failure (str_exn e)))"

definition close_position :: "terminal \<Rightarrow> int \<Rightarrow> pyval io" where
  "close_position T ticket =
     try_except
       (bnd (mt5_positions_get_ticket T ticket) (\<lambda>positions.
          case positions of
            None \<Rightarrow> ret (failure (''Position '' @ str_int ticket @ '' not found''))
          | Some [] \<Rightarrow> ret (failure (''Position '' @ str_int ticket @ '' not found''))
          | Some (position # rest) \<Rightarrow>
              bnd (mt5_order_send T (close_request position)) (close_result (PInt ticket))))
       (\<lambda>e. ret (failure (str_exn e)))"

text \<open>\<open>sys.argv[i]\<close>.\<close>

definition argv_get :: "string list \<Rightarrow> nat \<Rightarrow> exn + string" where
  "argv_get argv i =
     (if i < length argv then Inr (argv ! i)
      else Inl (Exn IndexError ''list index out of range''))"

definition arg_int :: "builtins \<Rightarrow> string list \<Rightarrow> nat \<Rightarrow> exn + int" where
  "arg_int B argv i = (case argv_get argv i of Inl e \<Rightarrow> Inl e | Inr s \<Rightarrow> py_int B (PStr s))"

definition arg_float :: "builtins \<Rightarrow> string list \<Rightarrow> nat \<Rightarrow> exn + pyfloat" where
  "arg_float B argv i = (case argv_get argv i of Inl e \<Rightarrow> Inl e | Inr s \<Rightarrow> py_float B (PStr s))"

text \<open>\<open>float(sys.argv[i]) if len(sys.argv) > i else 0\<close>.\<close>

definition arg_num_or_0 :: "builtins \<Rightarrow> string list \<Rightarrow> nat \<Rightarrow> exn + pynum" where
  "arg_num_or_0 B argv i =
     (if i < length argv then
        (case py_float B (PStr (argv ! i)) of Inl e \<Rightarrow> Inl e | Inr f \<Rightarrow> Inr (NFloat f))
      else Inr (NInt 0))"

text \<open>The body of the \<open>try\<close> in \<open>main\<close> (lines 257-308).\<close>

definition main_dispatch ::
  "builtins \<Rightarrow> terminal \<Rightarrow> string list \<Rightarrow> string \<Rightarrow> pyval \<Rightarrow> unit io" where
  "main_dispatch B T argv command connect_result =
     (if command = ''test_connection'' then emit connect_result
      else if command = ''connect_with_credentials'' then
        bnd (lift (argv_get argv 2)) (\<lambda>login.
        bnd (lift (argv_get argv 3)) (\<lambda>password.
        bnd (lift (argv_get argv 4)) (\<lambda>server.
        bnd (connect_with_credentials B T (PStr login) (PStr password) (PStr server)) emit)))
      else if command = ''get_symbols'' then bnd (get_symbols T) emit
      else if command = ''get_market_data'' then
        (let symbol = (if 2 < length argv then argv ! 2 else ''EURUSD'');
             timeframe = (if 3 < length argv then argv ! 3 else ''M1'')
         in bnd (lift (if 4 < length argv then py_int B (PStr (argv ! 4)) else Inr 100)) (\<lambda>count.
            bnd (get_market_data B T (PStr symbol) (PStr timeframe) count) emit))
      else if command = ''get_tick'' then
        (let symbol = (if 2 < length argv then argv ! 2 else ''EURUSD'')
         in bnd (get_tick_data B T (PStr symbol)) emit)
      else if command = ''place_order'' then
        bnd (lift (argv_get argv 2)) (\<lambda>symbol.
        bnd (lift (arg_int B argv 3)) (\<lambda>order_type.
        bnd (lift (arg_float B argv 4)) (\<lambda>volume.
        bnd (lift (arg_num_or_0 B argv 5)) (\<lambda>price.
        bnd (lift (arg_num_or_0 B argv 6)) (\<lambda>sl.
        bnd (lift (arg_num_or_0 B argv 7)) (\<lambda>tp.
          (let comment = (if 8 < length argv then argv ! 8 else [])
           in bnd (place_order T (PStr symbol) order_type volume price sl tp (PStr comment))
                emit)))))))
      else if command = ''get_positions'' then bnd (get_positions T) emit
      else if command = ''close_position'' then
        bnd (lift (arg_int B argv 2)) (\<lambda>ticket.
        bnd (close_position T ticket) emit)
      else if command = ''shutdown'' then
        bnd (mt5_shutdown T) (\<lambda>u.
          emit (PDict [(''success'', PBool True), (''message'', PStr ''MT5 connection closed'')]))
      else emit (failure (''Unknown command: '' @ command)))"

text \<open>\<open>main\<close> (lines 243-311). \<open>Inl e\<close> is the exception that leaves \<open>main\<close> uncaught, which
  ends the process with a traceback.\<close>

definition main :: "builtins \<Rightarrow> terminal \<Rightarrow> string list \<Rightarrow> unit io" where
  "main B T argv =
     (if length argv < 2 then emit (failure ''No command provided'')
      else
        (let command = argv ! 1
         in bnd (connect_mt5 T) (\<lambda>connect_result.
            bnd (lift (subscript connect_result ''success'')) (\<lambda>s.
              if \<not> truthy s then emit connect_result
              else try_finally (main_dispatch B T argv command connect_result)
                     (mt5_shutdown T)))))"

section \<open>mt5_bridge_server.py: the session server\<close>

text \<open>Arguments are whatever the JSON message carried; the methods convert them. In
  \<open>place_order\<close> the conversions \<open>float(volume)\<close>, \<open>int(order_type)\<close>, \<open>float(price)\<close>,
  \<open>float(sl)\<close>, \<open>float(tp)\<close> happen in this order, each one raising before the request is
  sent; they are pure, so the request is built from their results.\<close>

definition srv_get_market_data ::
  "builtins \<Rightarrow> terminal \<Rightarrow> pyval \<Rightarrow> pyval \<Rightarrow> pyval \<Rightarrow> pyval io" where
  "srv_get_market_data B T symbol timeframe count =
     try_except
       (bnd (lift (tf_map_get timeframe)) (\<lambda>timeframe_mt5.
        bnd (lift (py_int B count)) (\<lambda>n.
        bnd (mt5_copy_rates_from_pos T symbol timeframe_mt5 0 n) (\<lambda>rates.
          ret (rates_result B symbol rates)))))
       (\<lambda>e. ret (failure (str_exn e)))"

definition srv_place_order ::
  "builtins \<Rightarrow> terminal \<Rightarrow> pyval \<Rightarrow> pyval \<Rightarrow> pyval \<Rightarrow> pyval \<Rightarrow> pyval \<Rightarrow> pyval \<Rightarrow> pyval \<Rightarrow> pyval io"
  where
  "srv_place_order B T symbol order_type volume price sl tp comment =
     try_except
       (bnd (lift (py_float B volume)) (\<lambda>v.
        bnd (lift (py_int B order_type)) (\<lambda>ty.
        bnd (lift (py_float B price)) (\<lambda>p.
        bnd (lift (py_float B sl)) (\<lambda>s.
        bnd (lift (py_float B tp)) (\<lambda>t.
        bnd (mt5_order_send T (order_request symbol v ty comment (NFloat p) (NFloat s) (NFloat t)))
          (\<lambda>result. ret (order_result_dict result))))))))
       (\<lambda>e. ret (failure (str_exn e)))"

definition srv_close_position :: "builtins \<Rightarrow> terminal \<Rightarrow> pyval \<Rightarrow> pyval io" where
  "srv_close_position B T ticket =
     try_except
       (bnd (lift (py_int B ticket)) (\<lambda>n.
        bnd (mt5_positions_get_ticket T n) (\<lambda>positions.
          case positions of
            None \<Rightarrow> ret (failure (''Position '' @ py_str B ticket @ '' not found''))
          | Some [] \<Rightarrow> ret (failure (''Position '' @ py_str B ticket @ '' not found''))
          | Some (position # rest) \<Rightarrow>
              bnd (mt5_order_send T (close_request position)) (close_result (PInt n)))))
       (\<lambda>e. ret (failure (str_exn e)))"

definition shutdown_mt5 :: "terminal \<Rightarrow> pyval io" where
  "shutdown_mt5 T =
     bnd (mt5_shutdown T) (\<lambda>u.
       ret (PDict [(''success'', PBool True), (''message'', PStr ''MT5 connection closed'')]))"

text \<open>\<open>*args\<close>: the elements of a list, the characters of a string, the keys of a dict.\<close>

fun unpack :: "builtins \<Rightarrow> string \<Rightarrow> pyval \<Rightarrow> exn + pyval list" where
  "unpack B f (PList xs) = Inr xs"
| "unpack B f (PStr s) = Inr (map (\<lambda>c. PStr [c]) s)"
| "unpack B f (PDict kvs) = Inr (map (\<lambda>kv. PStr (fst kv)) kvs)"
| "unpack B f v =
     Inl (Exn TypeError
       (b_module B @ ''.'' @ f @ ''() argument after * must be an iterable, not '' @
        type_name v))"

text \<open>Calling a method with the wrong number of positional arguments: the text starts
  with the method's qualified name.\<close>

definition arity_error :: "builtins \<Rightarrow> string \<Rightarrow> pyval list \<Rightarrow> 'a io" where
  "arity_error B f xs = raise (Exn TypeError (f @ ''() '' @ b_arity_text B f (length xs)))"

text \<open>The \<open>if\<close>/\<open>elif\<close> chain of \<open>process_command\<close> (lines 66-85).\<close>

definition dispatch :: "builtins \<Rightarrow> terminal \<Rightarrow> pyval \<Rightarrow> pyval \<Rightarrow> pyval io" where
  "dispatch B T command args =
     (if command = PStr ''test_connection'' then connect_mt5 T
      else if command = PStr ''connect_with_credentials'' then
        bnd (lift (unpack B ''MT5BridgeServer.connect_with_credentials'' args)) (\<lambda>xs.
          case xs of
            [login, password, server] \<Rightarrow> connect_with_credentials B T login password server
          | _ \<Rightarrow> arity_error B ''MT5BridgeServer.connect_with_credentials'' xs)
      else if command = PStr ''get_symbols'' then get_symbols T
      else if command = PStr ''get_market_data'' then
        bnd (lift (unpack B ''MT5BridgeServer.get_market_data'' args)) (\<lambda>xs.
          case xs of
            [symbol] \<Rightarrow> srv_get_market_data B T symbol (PStr ''M1'') (PInt 100)
          | [symbol, timeframe] \<Rightarrow> srv_get_market_data B T symbol timeframe (PInt 100)
          | [symbol, timeframe, count] \<Rightarrow> srv_get_market_data B T symbol timeframe count
          | _ \<Rightarrow> arity_error B ''MT5BridgeServer.get_market_data'' xs)
      else if command = PStr ''get_tick'' then
        bnd (lift (unpack B ''MT5BridgeServer.get_tick_data'' args)) (\<lambda>xs.
          case xs of
            [symbol] \<Rightarrow> get_tick_data B T symbol
          | _ \<Rightarrow> arity_error B ''MT5BridgeServer.get_tick_data'' xs)
      else if command = PStr ''place_order'' then
        bnd (lift (unpack B ''MT5BridgeServer.place_order'' args)) (\<lambda>xs.
          case xs of
            [symbol, order_type, volume] \<Rightarrow>
              srv_place_order B T symbol order_type volume (PInt 0) (PInt 0) (PInt 0) (PStr [])
          | [symbol, order_type, volume, price] \<Rightarrow>
              srv_place_order B T symbol order_type volume price (PInt 0) (PInt 0) (PStr [])
          | [symbol, order_type, volume, price, sl] \<Rightarrow>
              srv_place_order B T symbol order_type volume price sl (PInt 0) (PStr [])
          | [symbol, order_type, volume, price, sl, tp] \<Rightarrow>
              srv_place_order B T symbol order_type volume price sl tp (PStr [])
          | [symbol, order_type, volume, price, sl, tp, comment] \<Rightarrow>
              srv_place_order B T symbol order_type volume price sl tp comment
          | _ \<Rightarrow> arity_error B ''MT5BridgeServer.place_order'' xs)
      else if command = PStr ''get_positions'' then get_positions T
      else if command = PStr ''close_position'' then
        bnd (lift (unpack B ''MT5BridgeServer.close_position'' args)) (\<lambda>xs.
          case xs of
            [ticket] \<Rightarrow> srv_close_position B T ticket
          | _ \<Rightarrow> arity_error B ''MT5BridgeServer.close_position'' xs)
      else if command = PStr ''shutdown'' then shutdown_mt5 T
      else ret (failure (''Unknown command: '' @ py_str B command)))"

text \<open>\<open>process_command\<close> (lines 57-99). The three \<open>data.get\<close> stand before the \<open>try\<close>.\<close>

definition process_command :: "builtins \<Rightarrow> terminal \<Rightarrow> pyval \<Rightarrow> pyval io" where
  "process_command B T data =
     bnd (lift (dict_get data ''id'' PNone)) (\<lambda>command_id.
     bnd (lift (dict_get data ''command'' PNone)) (\<lambda>command.
     bnd (lift (dict_get data ''args'' (PList []))) (\<lambda>args.
       try_except
         (bnd (dispatch B T command args) (\<lambda>result.
          bnd (lift (dict_get result ''success'' (PBool True))) (\<lambda>success.
            ret (PDict [(''id'', command_id), (''success'', success), (''result'', result)]))))
         (\<lambda>e. ret (PDict [(''id'', command_id), (''success'', PBool False),
                          (''error'', PStr (str_exn e))])))))"

text \<open>
  \<open>handle_client\<close> (lines 26-55). The incoming messages are a list; \<open>data\<close> is the local
  variable of that name, unbound until a message has decoded. Logging and the set of
  connected clients are left out. \<open>Inl e\<close> from \<open>handle_client\<close> is the exception that
  leaves the handler, on which the connection is torn down.
\<close>

definition invalid_json_response :: pyval where
  "invalid_json_response =
     PDict [(''id'', PNone), (''success'', PBool False), (''error'', PStr ''Invalid JSON format'')]"

text \<open>The two \<open>except\<close> clauses of the inner \<open>try\<close> (lines 38-51).\<close>

definition message_handlers :: "pyval option \<Rightarrow> exn \<Rightarrow> unit io" where
  "message_handlers data e =
     (if exn_class_of e = JSONDecodeError then emit invalid_json_response
      else
        bnd (case data of Some d \<Rightarrow> lift (dict_get d ''id'' PNone) | None \<Rightarrow> ret PNone) (\<lambda>cid.
          emit (PDict [(''id'', cid), (''success'', PBool False),
                       (''error'', PStr (str_exn e))])))"

text \<open>One turn of the \<open>async for\<close> loop; the result is the binding of \<open>data\<close> afterwards.\<close>

definition handle_message :: "builtins \<Rightarrow> terminal \<Rightarrow> pyval option \<Rightarrow> string \<Rightarrow> pyval option io"
  where
  "handle_message B T data message =
     (case b_json_loads B message of
        Inl e \<Rightarrow> bnd (message_handlers data e) (\<lambda>u. ret data)
      | Inr d \<Rightarrow>
          bnd (try_except (bnd (process_command B T d) emit) (message_handlers (Some d)))
            (\<lambda>u. ret (Some d)))"

fun receive_loop :: "builtins \<Rightarrow> terminal \<Rightarrow> pyval option \<Rightarrow> string list \<Rightarrow> world \<Rightarrow>
    (exn + unit) \<times> world" where
  "receive_loop B T data [] w = (Inr (), w)"
| "receive_loop B T data (message # rest) w =
     (case handle_message B T data message w of
        (Inl e, w') \<Rightarrow> (Inl e, w')
      | (Inr data', w') \<Rightarrow> receive_loop B T data' rest w')"

definition handle_client :: "builtins \<Rightarrow> terminal \<Rightarrow> string list \<Rightarrow> unit io" where
  "handle_client B T messages =
     try_except (receive_loop B T None messages)
       (\<lambda>e. if exn_class_of e = ConnectionClosed then ret () else raise e)"

section \<open>Shapes of results\<close>

text \<open>A success payload: \<open>success\<close> is \<open>True\<close> and there is no \<open>error\<close> key.\<close>

fun success_payload :: "pyval \<Rightarrow> bool" where
  "success_payload (PDict ((k, PBool True) # rest)) = (k = ''success'' \<and> map_of rest ''error'' = None)"
| "success_payload v = False"

text \<open>An exception, if there is one, has a text.\<close>

definition raises_text :: "exn + 'a \<Rightarrow> bool" where
  "raises_text r = (case r of Inl e \<Rightarrow> str_exn e \<noteq> [] | Inr x \<Rightarrow> True)"

text \<open>Every exception the terminal raises carries a text.\<close>

definition terminal_errors_have_text :: "terminal \<Rightarrow> bool" where
  "terminal_errors_have_text T =
     (\<forall>h. raises_text (t_initialize T h) \<and> raises_text (t_last_error T h) \<and>
          raises_text (t_account_info T h) \<and> raises_text (t_shutdown T h) \<and>
          raises_text (t_symbols_get T h) \<and> raises_text (t_positions_get T h) \<and>
          (\<forall>l p s. raises_text (t_login T h l p s)) \<and>
          (\<forall>s tf st n. raises_text (t_copy_rates_from_pos T h s tf st n)) \<and>
          (\<forall>s. raises_text (t_symbol_info_tick T h s)) \<and>
          (\<forall>req. raises_text (t_order_send T h req)) \<and>
          (\<forall>n. raises_text (t_positions_get_ticket T h n)))"

text \<open>What an operation leaves behind: an exception with a text, or a value with \<open>Q\<close>.\<close>

definition outcome :: "('a \<Rightarrow> bool) \<Rightarrow> (exn + 'a) \<times> world \<Rightarrow> bool" where
  "outcome Q x = (case fst x of Inl e \<Rightarrow> str_exn e \<noteq> [] | Inr r \<Rightarrow> Q r)"

text \<open>A result dictionary of the adapter: a success payload, or \<open>{"success": False,
  "error": msg}\<close>; \<open>texted\<close> asks for a message that is not empty.\<close>

definition shaped :: "pyval \<Rightarrow> bool" where
  "shaped r = (success_payload r \<or> (\<exists>msg. r = failure msg))"

definition texted :: "pyval \<Rightarrow> bool" where
  "texted r = (success_payload r \<or> (\<exists>msg. msg \<noteq> [] \<and> r = failure msg))"

definition keys_of :: "(string \<times> pyval) list \<Rightarrow> string set" where
  "keys_of req = fst ` set req"

definition command_table :: "string list" where
  "command_table =
     [''test_connection'', ''connect_with_credentials'', ''get_symbols'', ''get_market_data'',
      ''get_tick'', ''place_order'', ''get_positions'', ''close_position'', ''shutdown'']"

section \<open>A sample terminal and sample built-ins\<close>

text \<open>Concrete inputs on which the theorems below are instantiated: a terminal that is
  up, holds one BUY position (ticket 7) and one SELL position (ticket 8) and fills every
  order, and built-ins that know a few literals and messages; on more than 1000 opening
  brackets and nothing else \<open>json.loads\<close> raises \<open>RecursionError\<close>.\<close>

definition w0 :: world where
  "w0 = \<lparr>calls = [], out = []\<rparr>"

definition demo_account :: account_info where
  "demo_account =
     \<lparr>ai_login = 1001, ai_balance = Finite 10000, ai_equity = Finite 10000,
      ai_margin = Finite 0, ai_server = ''Demo'', ai_leverage = 100, ai_currency = ''USD''\<rparr>"

definition demo_buy_position :: position where
  "demo_buy_position =
     \<lparr>pos_ticket = 7, pos_symbol = ''EURUSD'', pos_type = 0, pos_volume = Finite (1 / 10),
      pos_price_open = Finite (11 / 10), pos_price_current = Finite (12 / 10),
      pos_profit = Finite 100, pos_swap = Finite 0, pos_commission = Finite 0\<rparr>"

definition demo_sell_position :: position where
  "demo_sell_position =
     \<lparr>pos_ticket = 8, pos_symbol = ''GBPUSD'', pos_type = 1, pos_volume = Finite (3 / 10),
      pos_price_open = Finite (13 / 10), pos_price_current = Finite (12 / 10),
      pos_profit = Finite 300, pos_swap = Finite 0, pos_commission = Finite 0\<rparr>"

definition demo_order_result :: order_result where
  "demo_order_result =
     \<lparr>or_retcode = 10009, or_order = 42, or_volume = Finite (1 / 10),
      or_price = Finite (11 / 10), or_comment = ''Request executed''\<rparr>"

definition demo_rate :: rate where
  "demo_rate =
     \<lparr>r_time = 1700000000, r_open = Finite (11 / 10), r_high = Finite (12 / 10),
      r_low = Finite 1, r_close = Finite (11 / 10), r_tick_volume = 5, r_spread = 2\<rparr>"

definition demo_terminal :: terminal where
  "demo_terminal =
     \<lparr>t_initialize = (\<lambda>h. Inr True),
      t_last_error = (\<lambda>h. Inr ''(-10003, no terminal)''),
      t_account_info = (\<lambda>h. Inr (Some demo_account)),
      t_login = (\<lambda>h l p s. Inr True),
      t_shutdown = (\<lambda>h. Inr ()),
      t_symbols_get = (\<lambda>h. Inr (Some [])),
      t_copy_rates_from_pos = (\<lambda>h s tf start n. if tf = 1 then Inr (Some [demo_rate]) else Inr None),
      t_symbol_info_tick = (\<lambda>h s. Inr None),
      t_order_send = (\<lambda>h req. Inr (Some demo_order_result)),
      t_positions_get = (\<lambda>h. Inr (Some [demo_buy_position, demo_sell_position])),
      t_positions_get_ticket =
        (\<lambda>h n. Inr (Some (if n = 7 then [demo_buy_position]
                           else if n = 8 then [demo_sell_position] else [])))\<rparr>"

definition demo_builtins :: builtins where
  \<open>demo_builtins =
     \<lparr>b_int_of_str = map_of [(''0'', 0), (''1'', 1), (''7'', 7), (''8'', 8), (''100'', 100)],
      b_float_of_str =
        map_of [(''0'', Finite 0), (''0.1'', Finite (1 / 10)), (''1.1'', Finite (11 / 10)),
                (''-1'', Finite (- 1))],
      b_float_of_int = (\<lambda>i. Some (Finite (of_int i))),
      b_repr = (\<lambda>v. case v of PStr s \<Rightarrow> quoted s | _ \<Rightarrow> ''...''),
      b_module = ''__main__'',
      b_arity_text = (\<lambda>f n. ''called with a wrong number of positional arguments''),
      b_json_loads =
        (\<lambda>s. if 1000 < length s \<and> set s = {CHR ''[''}
              then Inl (Exn RecursionError
                     ''maximum recursion depth exceeded while decoding a JSON array from a unicode string'')
              else if s = ''{"id": 1, "command": "get_positions"}''
              then Inr (PDict [(''id'', PInt 1), (''command'', PStr ''get_positions'')])
              else if s = ''{"id": 2, "command": "foo"}''
              then Inr (PDict [(''id'', PInt 2), (''command'', PStr ''foo'')])
              else if s = ''[]'' then Inr (PList [])
              else Inl (Exn JSONDecodeError ''Expecting value: line 1 column 1 (char 0)''))\<rparr>\<close>

section \<open>Unfolding the effects\<close>

lemmas io_defs =
  ret_def raise_def lift_def bnd_def try_except_def try_finally_def called_def emit_def

lemmas mt5_defs =
  mt5_initialize_def mt5_last_error_def mt5_account_info_def mt5_login_def mt5_shutdown_def
  mt5_symbols_get_def mt5_copy_rates_from_pos_def mt5_symbol_info_tick_def mt5_order_send_def
  mt5_positions_get_def mt5_positions_get_ticket_def

lemmas demo_defs =
  w0_def demo_terminal_def demo_builtins_def demo_account_def demo_buy_position_def
  demo_sell_position_def demo_order_result_def demo_rate_def

lemmas mt5_consts =
  TRADE_ACTION_DEAL_def ORDER_TIME_GTC_def ORDER_FILLING_IOC_def ORDER_TYPE_BUY_def
  ORDER_TYPE_SELL_def TRADE_RETCODE_DONE_def TIMEFRAME_M1_def TIMEFRAME_M5_def
  TIMEFRAME_M15_def TIMEFRAME_H1_def TIMEFRAME_H4_def TIMEFRAME_D1_def

section \<open>Listing positions\<close>

text \<open>
  C7. When the terminal reports no open position, as \<open>None\<close> or as an empty tuple,
  \<open>get_positions\<close> (the same body in both files) returns
  \<open>{"success": True, "positions": []}\<close>, after the one call \<open>positions_get()\<close>.
\<close>

theorem get_positions_none_or_empty:
  assumes "t_positions_get T (calls w) = Inr None \<or> t_positions_get T (calls w) = Inr (Some [])"
  shows "get_positions T w =
     (Inr (PDict [(''success'', PBool True), (''positions'', PList [])]),
      w\<lparr>calls := calls w @ [CPositionsGet]\<rparr>)"
  using assms by (auto simp: get_positions_def io_defs mt5_defs)

theorem get_positions_none_or_empty_witness:
  "t_positions_get (demo_terminal\<lparr>t_positions_get := (\<lambda>h. Inr None)\<rparr>) (calls w0) = Inr None \<and>
   get_positions (demo_terminal\<lparr>t_positions_get := (\<lambda>h. Inr None)\<rparr>) w0 =
     (Inr (PDict [(''success'', PBool True), (''positions'', PList [])]),
      \<lparr>calls = [CPositionsGet], out = []\<rparr>)"
  using get_positions_none_or_empty [of "demo_terminal\<lparr>t_positions_get := (\<lambda>h. Inr None)\<rparr>" w0]
  by (simp add: demo_terminal_def w0_def)

section \<open>Market data\<close>

text \<open>
  C6. For a timeframe string outside M1, M5, M15, H1, H4, D1, \<open>get_market_data\<close> makes
  the same call and returns the same result as for "M1", in both files: the whole
  outcome, result and state, is equal.
\<close>

theorem get_market_data_unknown_timeframe:
  assumes "tf \<notin> {''M1'', ''M5'', ''M15'', ''H1'', ''H4'', ''D1''}"
  shows "get_market_data B T symbol (PStr tf) count w =
           get_market_data B T symbol (PStr ''M1'') count w \<and>
         srv_get_market_data B T symbol (PStr tf) cnt w =
           srv_get_market_data B T symbol (PStr ''M1'') cnt w"
proof -
  have "tf_map_get (PStr tf) = tf_map_get (PStr ''M1'')"
    using assms by (simp add: tf_map_def)
  then show ?thesis
    by (simp add: get_market_data_def srv_get_market_data_def)
qed

theorem get_market_data_unknown_timeframe_witness:
  "''X1'' \<notin> {''M1'', ''M5'', ''M15'', ''H1'', ''H4'', ''D1''} \<and>
   get_market_data demo_builtins demo_terminal (PStr ''EURUSD'') (PStr ''X1'') 100 w0 =
     get_market_data demo_builtins demo_terminal (PStr ''EURUSD'') (PStr ''M1'') 100 w0 \<and>
   srv_get_market_data demo_builtins demo_terminal (PStr ''EURUSD'') (PStr ''X1'') (PInt 100) w0 =
     srv_get_market_data demo_builtins demo_terminal (PStr ''EURUSD'') (PStr ''M1'') (PInt 100) w0 \<and>
   get_market_data demo_builtins demo_terminal (PStr ''EURUSD'') (PStr ''M1'') 100 w0 =
     (Inr (PDict [(''success'', PBool True), (''data'', PList [rate_dict demo_rate])]),
      \<lparr>calls = [CCopyRatesFromPos (PStr ''EURUSD'') 1 0 100], out = []\<rparr>)"
  using get_market_data_unknown_timeframe
    [of "''X1''" demo_builtins demo_terminal "PStr ''EURUSD''" 100 w0 "PInt 100"]
  by (simp add: get_market_data_def tf_map_def rates_result_def io_defs mt5_defs mt5_consts
      demo_terminal_def w0_def)

section \<open>Closing a position\<close>

lemma close_request_fields:
  "map_of (close_request p) ''symbol'' = Some (PStr (pos_symbol p))"
  "map_of (close_request p) ''volume'' = Some (PFloat (pos_volume p))"
  "map_of (close_request p) ''type'' =
     Some (PInt (if pos_type p = ORDER_TYPE_BUY then ORDER_TYPE_SELL else ORDER_TYPE_BUY))"
  by (simp_all add: close_request_def)

lemma close_position_found:
  assumes "t_positions_get_ticket T (calls w) ticket = Inr (Some (p # ps))"
  shows "snd (close_position T ticket w) =
     w\<lparr>calls := calls w @ [CPositionsGetTicket ticket, COrderSend (close_request p)]\<rparr>"
  using assms
  by (simp add: close_position_def close_result_def io_defs mt5_defs
      split: sum.splits prod.splits option.splits)

lemma close_position_not_found:
  assumes "t_positions_get_ticket T (calls w) ticket = Inr None \<or>
           t_positions_get_ticket T (calls w) ticket = Inr (Some [])"
  shows "close_position T ticket w =
     (Inr (failure (''Position '' @ str_int ticket @ '' not found'')),
      w\<lparr>calls := calls w @ [CPositionsGetTicket ticket]\<rparr>)"
  using assms by (auto simp add: close_position_def io_defs mt5_defs)

lemma srv_close_position_found:
  assumes "py_int B ticket = Inr n"
    and "t_positions_get_ticket T (calls w) n = Inr (Some (p # ps))"
  shows "snd (srv_close_position B T ticket w) =
     w\<lparr>calls := calls w @ [CPositionsGetTicket n, COrderSend (close_request p)]\<rparr>"
  using assms
  by (simp add: srv_close_position_def close_result_def io_defs mt5_defs
      split: sum.splits prod.splits option.splits)

lemma srv_close_position_not_found:
  assumes "py_int B ticket = Inr n"
    and "t_positions_get_ticket T (calls w) n = Inr None \<or>
         t_positions_get_ticket T (calls w) n = Inr (Some [])"
  shows "srv_close_position B T ticket w =
     (Inr (failure (''Position '' @ py_str B ticket @ '' not found'')),
      w\<lparr>calls := calls w @ [CPositionsGetTicket n]\<rparr>)"
  using assms by (auto simp add: srv_close_position_def io_defs mt5_defs)

text \<open>
  C5. When \<open>positions_get(ticket=...)\<close> answers with a position \<open>p\<close> first,
  \<open>close_position\<close> sends exactly one order, \<open>close_request p\<close>, whose symbol and volume are
  those of \<open>p\<close> and whose side is SELL for a BUY position and BUY for a SELL
  position. When the answer is \<open>None\<close> or empty, the result is the failure
  "Position <ticket> not found" and no order is sent. Both files; in the server the
  ticket is first converted with \<open>int\<close>.
\<close>

theorem close_position_request:
  "(t_positions_get_ticket T (calls w) ticket = Inr (Some (p # ps)) \<longrightarrow>
      snd (close_position T ticket w) =
        w\<lparr>calls := calls w @ [CPositionsGetTicket ticket, COrderSend (close_request p)]\<rparr>) \<and>
   (py_int B tk = Inr ticket \<and> t_positions_get_ticket T (calls w) ticket = Inr (Some (p # ps)) \<longrightarrow>
      snd (srv_close_position B T tk w) =
        w\<lparr>calls := calls w @ [CPositionsGetTicket ticket, COrderSend (close_request p)]\<rparr>) \<and>
   map_of (close_request p) ''symbol'' = Some (PStr (pos_symbol p)) \<and>
   map_of (close_request p) ''volume'' = Some (PFloat (pos_volume p)) \<and>
   (pos_type p = ORDER_TYPE_BUY \<longrightarrow>
      map_of (close_request p) ''type'' = Some (PInt ORDER_TYPE_SELL)) \<and>
   (pos_type p = ORDER_TYPE_SELL \<longrightarrow>
      map_of (close_request p) ''type'' = Some (PInt ORDER_TYPE_BUY)) \<and>
   (t_positions_get_ticket T (calls w) ticket = Inr None \<or>
    t_positions_get_ticket T (calls w) ticket = Inr (Some []) \<longrightarrow>
      close_position T ticket w =
        (Inr (failure (''Position '' @ str_int ticket @ '' not found'')),
         w\<lparr>calls := calls w @ [CPositionsGetTicket ticket]\<rparr>)) \<and>
   (py_int B tk = Inr ticket \<and>
    (t_positions_get_ticket T (calls w) ticket = Inr None \<or>
     t_positions_get_ticket T (calls w) ticket = Inr (Some [])) \<longrightarrow>
      srv_close_position B T tk w =
        (Inr (failure (''Position '' @ py_str B tk @ '' not found'')),
         w\<lparr>calls := calls w @ [CPositionsGetTicket ticket]\<rparr>))"
proof -
  have "pos_type p = ORDER_TYPE_SELL \<Longrightarrow> pos_type p \<noteq> ORDER_TYPE_BUY"
    by (simp add: ORDER_TYPE_SELL_def ORDER_TYPE_BUY_def)
  then show ?thesis
    using close_position_found [of T w ticket p ps]
      srv_close_position_found [of B tk ticket T w p ps]
      close_position_not_found [of T w ticket]
      srv_close_position_not_found [of B tk ticket T w]
    by (simp add: close_request_fields)
qed

theorem close_position_request_witness:
  "snd (close_position demo_terminal 7 w0) =
     \<lparr>calls = [CPositionsGetTicket 7, COrderSend (close_request demo_buy_position)], out = []\<rparr> \<and>
   snd (srv_close_position demo_builtins demo_terminal (PStr ''8'') w0) =
     \<lparr>calls = [CPositionsGetTicket 8, COrderSend (close_request demo_sell_position)], out = []\<rparr> \<and>
   close_request demo_buy_position =
     [(''action'', PInt 1), (''symbol'', PStr ''EURUSD''), (''volume'', PFloat (Finite (1 / 10))),
      (''type'', PInt 1), (''position'', PInt 7), (''type_time'', PInt 0),
      (''type_filling'', PInt 1), (''comment'', PStr ''Position closed by trading bot'')] \<and>
   map_of (close_request demo_sell_position) ''type'' = Some (PInt 0) \<and>
   close_position demo_terminal 9 w0 =
     (Inr (PDict [(''success'', PBool False), (''error'', PStr ''Position 9 not found'')]),
      \<lparr>calls = [CPositionsGetTicket 9], out = []\<rparr>) \<and>
   srv_close_position demo_builtins demo_terminal (PInt 9) w0 =
     (Inr (PDict [(''success'', PBool False), (''error'', PStr ''Position 9 not found'')]),
      \<lparr>calls = [CPositionsGetTicket 9], out = []\<rparr>)"
  using close_position_request [of demo_terminal w0 7 demo_buy_position "[]" demo_builtins "PInt 7"]
    close_position_request [of demo_terminal w0 8 demo_sell_position "[]" demo_builtins "PStr ''8''"]
    close_position_request [of demo_terminal w0 9 demo_buy_position "[]" demo_builtins "PInt 9"]
  by (simp add: demo_defs mt5_consts close_request_def failure_def str_int_def str_nat.simps)

lemma close_position_null_result:
  assumes "t_positions_get_ticket T (calls w) ticket = Inr (Some (p # ps))"
    and "t_order_send T (calls w @ [CPositionsGetTicket ticket]) (close_request p) = Inr None"
  shows "close_position T ticket w =
     (Inr (failure (quoted ''NoneType'' @ '' object has no attribute '' @ quoted ''retcode'')),
      w\<lparr>calls := calls w @ [CPositionsGetTicket ticket, COrderSend (close_request p)]\<rparr>)"
  using assms by (simp add: close_position_def close_result_def io_defs mt5_defs)

lemma srv_close_position_null_result:
  assumes "py_int B ticket = Inr n"
    and "t_positions_get_ticket T (calls w) n = Inr (Some (p # ps))"
    and "t_order_send T (calls w @ [CPositionsGetTicket n]) (close_request p) = Inr None"
  shows "srv_close_position B T ticket w =
     (Inr (failure (quoted ''NoneType'' @ '' object has no attribute '' @ quoted ''retcode'')),
      w\<lparr>calls := calls w @ [CPositionsGetTicket n, COrderSend (close_request p)]\<rparr>)"
  using assms by (simp add: srv_close_position_def close_result_def io_defs mt5_defs)

lemma close_position_rejected:
  assumes "t_positions_get_ticket T (calls w) ticket = Inr (Some (p # ps))"
    and "t_order_send T (calls w @ [CPositionsGetTicket ticket]) (close_request p) = Inr (Some r)"
    and "or_retcode r \<noteq> TRADE_RETCODE_DONE"
  shows "fst (close_position T ticket w) = Inr (failure (''Close failed: '' @ or_comment r))"
  using assms by (simp add: close_position_def close_result_def io_defs mt5_defs)

lemma place_order_null_result:
  assumes "t_order_send T (calls w) (order_request symbol volume ot comment price sl tp) = Inr None"
  shows "fst (place_order T symbol ot volume price sl tp comment w) =
     Inr (failure ''Order send failed'')"
  using assms by (simp add: place_order_def order_result_dict_def io_defs mt5_defs)

text \<open>
  C10. With a position found and \<open>None\<close> as the terminal's answer to the closing order,
  \<open>close_position\<close> (both files) returns a failure dictionary and does not raise; its
  text is that of the \<open>AttributeError\<close> for \<open>retcode\<close> on \<open>None\<close>, caught by the generic
  handler, and is no "Close failed: ..." text, which is what a rejected order gives.
  \<open>place_order\<close> tests for \<open>None\<close> and answers "Order send failed".
\<close>

theorem close_position_none_from_order_send:
  "(t_positions_get_ticket T (calls w) ticket = Inr (Some (p # ps)) \<and>
    t_order_send T (calls w @ [CPositionsGetTicket ticket]) (close_request p) = Inr None \<longrightarrow>
      close_position T ticket w =
        (Inr (PDict [(''success'', PBool False),
                     (''error'', PStr (quoted ''NoneType'' @ '' object has no attribute '' @
                                       quoted ''retcode''))]),
         w\<lparr>calls := calls w @ [CPositionsGetTicket ticket, COrderSend (close_request p)]\<rparr>)) \<and>
   (py_int B tk = Inr ticket \<and>
    t_positions_get_ticket T (calls w) ticket = Inr (Some (p # ps)) \<and>
    t_order_send T (calls w @ [CPositionsGetTicket ticket]) (close_request p) = Inr None \<longrightarrow>
      srv_close_position B T tk w =
        (Inr (PDict [(''success'', PBool False),
                     (''error'', PStr (quoted ''NoneType'' @ '' object has no attribute '' @
                                       quoted ''retcode''))]),
         w\<lparr>calls := calls w @ [CPositionsGetTicket ticket, COrderSend (close_request p)]\<rparr>)) \<and>
   quoted ''NoneType'' @ '' object has no attribute '' @ quoted ''retcode'' \<noteq>
     ''Close failed: '' @ c \<and>
   (t_positions_get_ticket T (calls w) ticket = Inr (Some (p # ps)) \<and>
    t_order_send T (calls w @ [CPositionsGetTicket ticket]) (close_request p) = Inr (Some r) \<and>
    or_retcode r \<noteq> TRADE_RETCODE_DONE \<longrightarrow>
      fst (close_position T ticket w) =
        Inr (PDict [(''success'', PBool False),
                    (''error'', PStr (''Close failed: '' @ or_comment r))])) \<and>
   (t_order_send T (calls w) (order_request symbol volume ot comment price sl tp) = Inr None \<longrightarrow>
      fst (place_order T symbol ot volume price sl tp comment w) =
        Inr (PDict [(''success'', PBool False), (''error'', PStr ''Order send failed'')]))"
  using close_position_null_result [of T w ticket p ps]
    srv_close_position_null_result [of B tk ticket T w p ps]
    close_position_rejected [of T w ticket p ps r]
    place_order_null_result [of T w symbol volume ot comment price sl tp]
  by (simp add: failure_def quoted_def)

theorem close_position_none_from_order_send_witness:
  "close_position (demo_terminal\<lparr>t_order_send := (\<lambda>h req. Inr None)\<rparr>) 7 w0 =
     (Inr (PDict [(''success'', PBool False),
                  (''error'', PStr (quoted ''NoneType'' @ '' object has no attribute '' @
                                    quoted ''retcode''))]),
      \<lparr>calls = [CPositionsGetTicket 7, COrderSend (close_request demo_buy_position)], out = []\<rparr>) \<and>
   srv_close_position demo_builtins (demo_terminal\<lparr>t_order_send := (\<lambda>h req. Inr None)\<rparr>)
       (PInt 7) w0 =
     (Inr (PDict [(''success'', PBool False),
                  (''error'', PStr (quoted ''NoneType'' @ '' object has no attribute '' @
                                    quoted ''retcode''))]),
      \<lparr>calls = [CPositionsGetTicket 7, COrderSend (close_request demo_buy_position)], out = []\<rparr>) \<and>
   fst (place_order (demo_terminal\<lparr>t_order_send := (\<lambda>h req. Inr None)\<rparr>)
         (PStr ''EURUSD'') 0 (Finite (1 / 10)) (NInt 0) (NInt 0) (NInt 0) (PStr []) w0) =
     Inr (PDict [(''success'', PBool False), (''error'', PStr ''Order send failed'')])"
  using close_position_none_from_order_send
    [of "demo_terminal\<lparr>t_order_send := (\<lambda>h req. Inr None)\<rparr>" w0 7 demo_buy_position "[]"
        demo_builtins "PInt 7" "[]" demo_order_result "PStr ''EURUSD''" "Finite (1 / 10)" 0
        "PStr []" "NInt 0" "NInt 0" "NInt 0"]
  by (simp add: demo_terminal_def w0_def)

section \<open>Placing an order\<close>

lemma order_request_lookup:
  "map_of (order_request symbol volume ot comment price sl tp) ''price'' =
     (if num_gt0 price then Some (num_val price) else None)"
  "map_of (order_request symbol volume ot comment price sl tp) ''sl'' =
     (if num_gt0 sl then Some (num_val sl) else None)"
  "map_of (order_request symbol volume ot comment price sl tp) ''tp'' =
     (if num_gt0 tp then Some (num_val tp) else None)"
  by (simp_all add: order_request_def Let_def update_conv')

lemma keys_of_map_of: "(k \<in> keys_of req) = (map_of req k \<noteq> None)"
  by (simp add: keys_of_def map_of_eq_None_iff)

lemma order_request_keys:
  "(''price'' \<in> keys_of (order_request symbol volume ot comment price sl tp)) = num_gt0 price"
  "(''sl'' \<in> keys_of (order_request symbol volume ot comment price sl tp)) = num_gt0 sl"
  "(''tp'' \<in> keys_of (order_request symbol volume ot comment price sl tp)) = num_gt0 tp"
  by (simp_all add: keys_of_map_of order_request_lookup)

lemma place_order_sends:
  "snd (place_order T symbol ot volume price sl tp comment w) =
     w\<lparr>calls := calls w @ [COrderSend (order_request symbol volume ot comment price sl tp)]\<rparr>"
  by (simp add: place_order_def io_defs mt5_defs split: sum.splits prod.splits)

lemma srv_place_order_sends:
  assumes "py_float B volume = Inr v" "py_int B order_type = Inr ty"
    "py_float B price = Inr p" "py_float B sl = Inr s" "py_float B tp = Inr t"
  shows "snd (srv_place_order B T symbol order_type volume price sl tp comment w) =
     w\<lparr>calls := calls w @
        [COrderSend (order_request symbol v ty comment (NFloat p) (NFloat s) (NFloat t))]\<rparr>"
  using assms by (simp add: srv_place_order_def io_defs mt5_defs split: sum.splits prod.splits)

lemma srv_place_order_sends_nothing:
  assumes "py_float B volume = Inl e \<or> py_int B order_type = Inl e \<or>
    py_float B price = Inl e \<or> py_float B sl = Inl e \<or> py_float B tp = Inl e"
  shows "snd (srv_place_order B T symbol order_type volume price sl tp comment w) = w"
  using assms
  by (auto simp add: srv_place_order_def io_defs mt5_defs split: sum.splits prod.splits)

text \<open>
  C4. \<open>place_order\<close> of mt5_bridge.py always sends one request, \<open>order_request\<close> of its
  arguments; the server's \<open>place_order\<close> sends the request of the converted arguments
  when all five conversions succeed, and sends nothing when one of them raises. In
  every such request each of the keys "price", "sl", "tp" is present if and only if
  the corresponding number is strictly greater than zero, and then holds that number;
  a number that is zero, negative or NaN leaves the key absent.
\<close>

theorem place_order_price_sl_tp:
  "snd (place_order T symbol ot volume price sl tp comment w) =
     w\<lparr>calls := calls w @ [COrderSend (order_request symbol volume ot comment price sl tp)]\<rparr> \<and>
   (py_float B vol' = Inr v \<and> py_int B ot' = Inr ty \<and> py_float B price' = Inr p \<and>
    py_float B sl' = Inr s \<and> py_float B tp' = Inr t \<longrightarrow>
      snd (srv_place_order B T symbol ot' vol' price' sl' tp' comment w) =
        w\<lparr>calls := calls w @
          [COrderSend (order_request symbol v ty comment (NFloat p) (NFloat s) (NFloat t))]\<rparr>) \<and>
   (py_float B vol' = Inl e \<or> py_int B ot' = Inl e \<or> py_float B price' = Inl e \<or>
    py_float B sl' = Inl e \<or> py_float B tp' = Inl e \<longrightarrow>
      snd (srv_place_order B T symbol ot' vol' price' sl' tp' comment w) = w) \<and>
   (''price'' \<in> keys_of (order_request symbol volume ot comment price sl tp)) = num_gt0 price \<and>
   (''sl'' \<in> keys_of (order_request symbol volume ot comment price sl tp)) = num_gt0 sl \<and>
   (''tp'' \<in> keys_of (order_request symbol volume ot comment price sl tp)) = num_gt0 tp \<and>
   map_of (order_request symbol volume ot comment price sl tp) ''price'' =
     (if num_gt0 price then Some (num_val price) else None) \<and>
   map_of (order_request symbol volume ot comment price sl tp) ''sl'' =
     (if num_gt0 sl then Some (num_val sl) else None) \<and>
   map_of (order_request symbol volume ot comment price sl tp) ''tp'' =
     (if num_gt0 tp then Some (num_val tp) else None) \<and>
   (''price'' \<in> keys_of (order_request symbol v ty comment (NFloat p) (NFloat s) (NFloat t))) =
     float_gt0 p \<and>
   (''sl'' \<in> keys_of (order_request symbol v ty comment (NFloat p) (NFloat s) (NFloat t))) =
     float_gt0 s \<and>
   (''tp'' \<in> keys_of (order_request symbol v ty comment (NFloat p) (NFloat s) (NFloat t))) =
     float_gt0 t \<and>
   num_gt0 (NInt i) = (0 < i) \<and> num_gt0 (NFloat (Finite q)) = (0 < q) \<and>
   \<not> num_gt0 (NFloat NaN)"
  using place_order_sends [of T symbol ot volume price sl tp comment w]
    srv_place_order_sends [of B vol' v ot' ty price' p sl' s tp' t T symbol comment w]
    srv_place_order_sends_nothing [of B vol' e ot' price' sl' tp' T symbol comment w]
  by (simp add: order_request_keys order_request_lookup)

theorem place_order_price_sl_tp_witness:
  "snd (place_order demo_terminal (PStr ''EURUSD'') 0 (Finite (1 / 10))
          (NFloat (Finite (11 / 10))) (NInt 0) (NFloat (Finite (- 1))) (PStr ''bot'') w0) =
     \<lparr>calls = [COrderSend
        [(''action'', PInt 1), (''symbol'', PStr ''EURUSD''), (''volume'', PFloat (Finite (1 / 10))),
         (''type'', PInt 0), (''comment'', PStr ''bot''), (''type_time'', PInt 0),
         (''type_filling'', PInt 1), (''price'', PFloat (Finite (11 / 10)))]], out = []\<rparr> \<and>
   snd (srv_place_order demo_builtins demo_terminal (PStr ''EURUSD'') (PInt 1) (PStr ''0.1'')
          (PInt 0) (PFloat (Finite (11 / 10))) (PStr ''-1'') (PStr ''bot'') w0) =
     \<lparr>calls = [COrderSend
        [(''action'', PInt 1), (''symbol'', PStr ''EURUSD''), (''volume'', PFloat (Finite (1 / 10))),
         (''type'', PInt 1), (''comment'', PStr ''bot''), (''type_time'', PInt 0),
         (''type_filling'', PInt 1), (''sl'', PFloat (Finite (11 / 10)))]], out = []\<rparr> \<and>
   snd (srv_place_order demo_builtins demo_terminal (PStr ''EURUSD'') (PInt 1) (PStr ''0.1'')
          PNone (PInt 0) (PInt 0) (PStr ''bot'') w0) = w0"
  using place_order_price_sl_tp
    [of demo_terminal "PStr ''EURUSD''" 0 "Finite (1 / 10)" "NFloat (Finite (11 / 10))" "NInt 0"
        "NFloat (Finite (- 1))" "PStr ''bot''" w0 demo_builtins "PStr ''0.1''" "Finite (1 / 10)"
        "PInt 1" 1 "PInt 0" "Finite 0" "PFloat (Finite (11 / 10))" "Finite (11 / 10)"
        "PStr ''-1''" "Finite (- 1)"
        "Exn TypeError (''float() argument must be a string or a real number, not '' @
           quoted ''NoneType'')"]
    place_order_price_sl_tp
    [of demo_terminal "PStr ''EURUSD''" 0 "Finite (1 / 10)" "NFloat (Finite (11 / 10))" "NInt 0"
        "NFloat (Finite (- 1))" "PStr ''bot''" w0 demo_builtins "PStr ''0.1''" "Finite (1 / 10)"
        "PInt 1" 1 PNone "Finite 0" "PInt 0" "Finite 0" "PInt 0" "Finite 0"
        "Exn TypeError (''float() argument must be a string or a real number, not '' @
           quoted ''NoneType'')"]
  by (simp add: demo_defs mt5_consts order_request_def)

section \<open>Messages that are not JSON\<close>

lemma handle_message_invalid:
  assumes "b_json_loads B m = Inl e" "exn_class_of e = JSONDecodeError"
  shows "handle_message B T data m w = (Inr data, w\<lparr>out := out w @ [invalid_json_response]\<rparr>)"
  using assms by (simp add: handle_message_def message_handlers_def io_defs)

text \<open>
  C8, as the code has it. When \<open>json.loads\<close> raises \<open>JSONDecodeError\<close> on a message, the
  server sends exactly \<open>{"id": None, "success": False, "error": "Invalid JSON format"}\<close>,
  calls nothing on the terminal, and goes on with the loop: the rest of the messages is
  handled as it would be after that one response, with the same binding of \<open>data\<close>.
\<close>

theorem invalid_json_response_and_continue:
  assumes "b_json_loads B m = Inl e" and "exn_class_of e = JSONDecodeError"
  shows "handle_message B T data m w =
           (Inr data, w\<lparr>out := out w @ [invalid_json_response]\<rparr>) \<and>
         receive_loop B T data (m # rest) w =
           receive_loop B T data rest (w\<lparr>out := out w @ [invalid_json_response]\<rparr>) \<and>
         handle_client B T (m # rest) w =
           handle_client B T rest (w\<lparr>out := out w @ [invalid_json_response]\<rparr>) \<and>
         invalid_json_response =
           PDict [(''id'', PNone), (''success'', PBool False),
                  (''error'', PStr ''Invalid JSON format'')]"
  using assms
  by (simp add: handle_message_invalid handle_client_def try_except_def
      invalid_json_response_def)

theorem invalid_json_response_and_continue_witness:
  \<open>b_json_loads demo_builtins ''not json'' =
     Inl (Exn JSONDecodeError ''Expecting value: line 1 column 1 (char 0)'') \<and>
   handle_client demo_builtins demo_terminal
       [''not json'', ''{"id": 1, "command": "get_positions"}''] w0 =
     (Inr (),
      \<lparr>calls = [CPositionsGet],
       out = [PDict [(''id'', PNone), (''success'', PBool False),
                     (''error'', PStr ''Invalid JSON format'')],
              PDict [(''id'', PInt 1), (''success'', PBool True),
                     (''result'', PDict [(''success'', PBool True),
                        (''positions'', PList [position_dict demo_buy_position,
                                               position_dict demo_sell_position])])]]\<rparr>)\<close>
  using invalid_json_response_and_continue
    [of demo_builtins \<open>''not json''\<close> \<open>Exn JSONDecodeError ''Expecting value: line 1 column 1 (char 0)''\<close>
        demo_terminal None w0 \<open>[''{"id": 1, "command": "get_positions"}'']\<close>]
  by (simp add: demo_builtins_def demo_terminal_def w0_def handle_client_def handle_message_def
      process_command_def dispatch_def get_positions_def invalid_json_response_def
      io_defs mt5_defs)

text \<open>
  C8 as the claim states it fails for a message that is not JSON and on which
  \<open>json.loads\<close> raises another class than \<open>JSONDecodeError\<close>: the clause of line 38 does not
  catch it and the generic clause (lines 45-51) answers with the text of the exception.
  1500 opening brackets are such a message.
\<close>

theorem invalid_json_counterexample:
  "handle_client demo_builtins demo_terminal [replicate 1500 (CHR ''['')] w0 =
     (Inr (),
      \<lparr>calls = [],
       out = [PDict [(''id'', PNone), (''success'', PBool False),
                     (''error'', PStr
                        ''maximum recursion depth exceeded while decoding a JSON array from a unicode string'')]]\<rparr>)"
  by (simp add: demo_builtins_def w0_def handle_client_def handle_message_def
      message_handlers_def io_defs)

section \<open>The one-shot executor: shutdown and unknown commands\<close>

lemma try_finally_shutdown_last:
  "\<exists>pre. calls (snd (try_finally m (mt5_shutdown T) w)) = pre @ [CShutdown]"
  by (simp add: try_finally_def mt5_shutdown_def called_def split: prod.splits sum.splits)

lemma connect_mt5_connected:
  assumes "t_initialize T (calls w) = Inr True"
    and "t_account_info T (calls w @ [CInitialize]) = Inr (Some a)"
  shows "connect_mt5 T w =
     (Inr (PDict [(''success'', PBool True), (''account'', account_dict a)]),
      w\<lparr>calls := calls w @ [CInitialize, CAccountInfo]\<rparr>)"
  using assms by (simp add: connect_mt5_def io_defs mt5_defs)

lemma main_connected:
  assumes "2 \<le> length argv" and "t_initialize T (calls w) = Inr True"
    and "t_account_info T (calls w @ [CInitialize]) = Inr (Some a)"
  shows "main B T argv w =
     try_finally
       (main_dispatch B T argv (argv ! 1)
          (PDict [(''success'', PBool True), (''account'', account_dict a)]))
       (mt5_shutdown T) (w\<lparr>calls := calls w @ [CInitialize, CAccountInfo]\<rparr>)"
  using assms by (simp add: main_def connect_mt5_connected bnd_def lift_def Let_def)

lemma main_no_command:
  assumes "length argv < 2"
  shows "main B T argv w = (Inr (), w\<lparr>out := out w @ [failure ''No command provided'']\<rparr>)"
  using assms by (simp add: main_def emit_def)

text \<open>
  C2, as the code has it. When a command is given and the implicit connect succeeds,
  whatever the command and its arguments are and whether the dispatched operation
  returns or raises, the last call \<open>main\<close> makes on the terminal is \<open>shutdown()\<close>. When no
  command is given, \<open>main\<close> prints the failure and returns without any call on the
  terminal.
\<close>

theorem main_shutdown_last_when_connected:
  "(2 \<le> length argv \<and> t_initialize T (calls w) = Inr True \<and>
    t_account_info T (calls w @ [CInitialize]) = Inr (Some a) \<longrightarrow>
      (\<exists>pre. calls (snd (main B T argv w)) = pre @ [CShutdown])) \<and>
   (length argv < 2 \<longrightarrow>
      main B T argv w =
        (Inr (), w\<lparr>out := out w @ [PDict [(''success'', PBool False),
                                           (''error'', PStr ''No command provided'')]]\<rparr>))"
proof -
  have "\<exists>pre. calls (snd (main B T argv w)) = pre @ [CShutdown]"
    if "2 \<le> length argv" and "t_initialize T (calls w) = Inr True"
      and "t_account_info T (calls w @ [CInitialize]) = Inr (Some a)"
    using that by (simp only: main_connected try_finally_shutdown_last)
  then show ?thesis
    using main_no_command [of argv B T w] by (simp add: failure_def)
qed

theorem main_shutdown_last_when_connected_witness:
  "main demo_builtins demo_terminal [''mt5_bridge.py'', ''get_positions''] w0 =
     (Inr (),
      \<lparr>calls = [CInitialize, CAccountInfo, CPositionsGet, CShutdown],
       out = [PDict [(''success'', PBool True),
                     (''positions'', PList [position_dict demo_buy_position,
                                            position_dict demo_sell_position])]]\<rparr>) \<and>
   main demo_builtins demo_terminal [''mt5_bridge.py'', ''place_order'', ''EURUSD''] w0 =
     (Inl (Exn IndexError ''list index out of range''),
      \<lparr>calls = [CInitialize, CAccountInfo, CShutdown], out = []\<rparr>) \<and>
   main demo_builtins demo_terminal [] w0 =
     (Inr (),
      \<lparr>calls = [],
       out = [PDict [(''success'', PBool False), (''error'', PStr ''No command provided'')]]\<rparr>)"
  using main_shutdown_last_when_connected
      [of "[''mt5_bridge.py'', ''get_positions'']" demo_terminal w0 demo_account demo_builtins]
    main_shutdown_last_when_connected
      [of "[''mt5_bridge.py'', ''place_order'', ''EURUSD'']" demo_terminal w0 demo_account
          demo_builtins]
    main_shutdown_last_when_connected [of "[]" demo_terminal w0 demo_account demo_builtins]
  by (simp add: demo_terminal_def w0_def main_def connect_mt5_def main_dispatch_def
      get_positions_def argv_get_def arg_int_def io_defs mt5_defs)

text \<open>
  C2 as the claim states it fails on the path it names first: with no command on the
  command line, \<open>main\<close> returns without calling \<open>shutdown()\<close>.
\<close>

theorem main_no_command_counterexample:
  "main demo_builtins demo_terminal [''mt5_bridge.py''] w0 =
     (Inr (),
      \<lparr>calls = [],
       out = [PDict [(''success'', PBool False), (''error'', PStr ''No command provided'')]]\<rparr>) \<and>
   CShutdown \<notin> set (calls (snd (main demo_builtins demo_terminal [''mt5_bridge.py''] w0)))"
  by (simp add: main_def emit_def failure_def w0_def)

text \<open>
  C3 fails in the executor: \<open>main\<close> has a \<open>try\<close> with \<open>finally\<close> and no \<open>except\<close>. With the
  ticket missing, \<open>sys.argv[2]\<close> raises \<open>IndexError\<close>; \<open>shutdown()\<close> runs and the exception
  leaves \<open>main\<close>, nothing having been printed. The same happens when \<open>symbols_get()\<close>
  raises, \<open>get_symbols\<close> having no handler. In the server a message that is JSON but no
  object makes \<open>data.get\<close> raise outside the \<open>try\<close> of \<open>process_command\<close> and again inside
  the handler, so the exception leaves \<open>handle_client\<close>: nothing is sent and the next
  message is not read.
\<close>

theorem main_uncaught_exception:
  \<open>main demo_builtins demo_terminal [''mt5_bridge.py'', ''close_position''] w0 =
     (Inl (Exn IndexError ''list index out of range''),
      \<lparr>calls = [CInitialize, CAccountInfo, CShutdown], out = []\<rparr>) \<and>
   main demo_builtins
       (demo_terminal\<lparr>t_symbols_get := (\<lambda>h. Inl (Exn OtherError ''terminal failure''))\<rparr>)
       [''mt5_bridge.py'', ''get_symbols''] w0 =
     (Inl (Exn OtherError ''terminal failure''),
      \<lparr>calls = [CInitialize, CAccountInfo, CSymbolsGet, CShutdown], out = []\<rparr>) \<and>
   handle_client demo_builtins demo_terminal
       [''[]'', ''{"id": 1, "command": "get_positions"}''] w0 =
     (Inl (Exn AttributeError (quoted ''list'' @ '' object has no attribute '' @ quoted ''get'')),
      \<lparr>calls = [], out = []\<rparr>)\<close>
  by (simp add: demo_terminal_def demo_builtins_def w0_def main_def connect_mt5_def
      main_dispatch_def get_symbols_def argv_get_def arg_int_def handle_client_def
      handle_message_def message_handlers_def process_command_def io_defs mt5_defs)

lemma main_dispatch_unknown:
  assumes "command \<notin> set command_table"
  shows "main_dispatch B T argv command r w =
     (Inr (), w\<lparr>out := out w @ [failure (''Unknown command: '' @ command)]\<rparr>)"
  using assms by (simp add: main_dispatch_def command_table_def emit_def)

lemma main_unknown:
  assumes "2 \<le> length argv" and "argv ! 1 \<notin> set command_table"
    and "t_initialize T (calls w) = Inr True"
    and "t_account_info T (calls w @ [CInitialize]) = Inr (Some a)"
  shows "main B T argv w =
     (case t_shutdown T (calls w @ [CInitialize, CAccountInfo]) of
        Inl e \<Rightarrow> Inl e | Inr u \<Rightarrow> Inr (),
      w\<lparr>calls := calls w @ [CInitialize, CAccountInfo, CShutdown],
        out := out w @ [failure (''Unknown command: '' @ argv ! 1)]\<rparr>)"
  using assms
  by (simp add: main_connected main_dispatch_unknown try_finally_def mt5_shutdown_def
      called_def split: sum.splits)

lemma dispatch_unknown:
  assumes "name \<notin> set command_table"
  shows "dispatch B T (PStr name) args w = (Inr (failure (''Unknown command: '' @ name)), w)"
  using assms by (auto simp add: dispatch_def command_table_def ret_def)

lemma process_command_unknown:
  assumes "name \<notin> set command_table" and "map_of kvs ''command'' = Some (PStr name)"
  shows "process_command B T (PDict kvs) w =
     (Inr (PDict [(''id'', case map_of kvs ''id'' of Some v \<Rightarrow> v | None \<Rightarrow> PNone),
                  (''success'', PBool False),
                  (''result'', failure (''Unknown command: '' @ name))]), w)"
  using assms by (simp add: process_command_def dispatch_unknown failure_def io_defs)

text \<open>
  C9, as the code has it. For a command name outside the table: the server's
  \<open>process_command\<close> returns the envelope with \<open>success\<close> false whose \<open>result\<close> is
  \<open>{"success": False, "error": "Unknown command: <name>"}\<close>, without raising and without
  any call on the terminal; the executor, when the implicit connect has succeeded,
  prints \<open>{"success": False, "error": "Unknown command: <name>"}\<close> and calls nothing on
  the terminal but the connect before and \<open>shutdown()\<close> after, whose outcome is the
  outcome of \<open>main\<close>.
\<close>

theorem unknown_command_reported:
  "(name \<notin> set command_table \<and> map_of kvs ''command'' = Some (PStr name) \<longrightarrow>
      process_command B T (PDict kvs) w =
        (Inr (PDict [(''id'', case map_of kvs ''id'' of Some v \<Rightarrow> v | None \<Rightarrow> PNone),
                     (''success'', PBool False),
                     (''result'', PDict [(''success'', PBool False),
                                         (''error'', PStr (''Unknown command: '' @ name))])]),
         w)) \<and>
   (2 \<le> length argv \<and> argv ! 1 = name \<and> name \<notin> set command_table \<and>
    t_initialize T (calls w) = Inr True \<and>
    t_account_info T (calls w @ [CInitialize]) = Inr (Some a) \<longrightarrow>
      main B T argv w =
        (case t_shutdown T (calls w @ [CInitialize, CAccountInfo]) of
           Inl e \<Rightarrow> Inl e | Inr u \<Rightarrow> Inr (),
         w\<lparr>calls := calls w @ [CInitialize, CAccountInfo, CShutdown],
           out := out w @ [PDict [(''success'', PBool False),
                                  (''error'', PStr (''Unknown command: '' @ name))]]\<rparr>))"
  using process_command_unknown [of name kvs B T w] main_unknown [of argv T w a B]
  by (auto simp add: failure_def)

theorem unknown_command_reported_witness:
  "''foo'' \<notin> set command_table \<and>
   process_command demo_builtins demo_terminal
       (PDict [(''id'', PInt 2), (''command'', PStr ''foo'')]) w0 =
     (Inr (PDict [(''id'', PInt 2), (''success'', PBool False),
                  (''result'', PDict [(''success'', PBool False),
                                      (''error'', PStr ''Unknown command: foo'')])]),
      \<lparr>calls = [], out = []\<rparr>) \<and>
   main demo_builtins demo_terminal [''mt5_bridge.py'', ''foo''] w0 =
     (Inr (),
      \<lparr>calls = [CInitialize, CAccountInfo, CShutdown],
       out = [PDict [(''success'', PBool False), (''error'', PStr ''Unknown command: foo'')]]\<rparr>)"
  using unknown_command_reported
    [of "''foo''" "[(''id'', PInt 2), (''command'', PStr ''foo'')]" demo_builtins demo_terminal w0
        "[''mt5_bridge.py'', ''foo'']" demo_account]
  by (simp add: command_table_def demo_terminal_def w0_def)

text \<open>
  C9 as the claim states it fails in the executor when the implicit connect fails: the
  envelope printed for the unknown command \<open>foo\<close> carries the connect failure, not
  "Unknown command: foo".
\<close>

theorem unknown_command_counterexample:
  "main demo_builtins (demo_terminal\<lparr>t_initialize := (\<lambda>h. Inr False)\<rparr>)
       [''mt5_bridge.py'', ''foo''] w0 =
     (Inr (),
      \<lparr>calls = [CInitialize, CLastError],
       out = [PDict [(''success'', PBool False),
                     (''error'', PStr ''initialize() failed, error code = (-10003, no terminal)'')]]\<rparr>)"
  by (simp add: demo_terminal_def w0_def main_def connect_mt5_def failure_def io_defs mt5_defs)

section \<open>The server's result envelope\<close>

subsection \<open>Every adapter result is a success payload or a failure dictionary\<close>

lemma shaped_failure [simp]: "shaped (failure msg)"
  by (auto simp add: shaped_def)

lemma shaped_success [simp]:
  "map_of rest ''error'' = None \<Longrightarrow> shaped (PDict ((''success'', PBool True) # rest))"
  by (simp add: shaped_def)

lemma rates_result_shaped [simp]: "shaped (rates_result B s rs)"
  by (simp add: rates_result_def split: option.splits)

lemma order_result_dict_shaped [simp]: "shaped (order_result_dict r)"
  by (simp add: order_result_dict_def split: option.splits)

lemma connect_mt5_shaped: "connect_mt5 T w = (Inr r, w') \<Longrightarrow> shaped r"
  by (auto simp: connect_mt5_def io_defs mt5_defs
      split: sum.splits prod.splits option.splits if_splits)

lemma connect_with_credentials_shaped:
  "connect_with_credentials B T l p s w = (Inr r, w') \<Longrightarrow> shaped r"
  by (auto simp: connect_with_credentials_def io_defs mt5_defs
      split: sum.splits prod.splits option.splits if_splits)

lemma get_symbols_shaped: "get_symbols T w = (Inr r, w') \<Longrightarrow> shaped r"
  by (auto simp: get_symbols_def io_defs mt5_defs
      split: sum.splits prod.splits option.splits if_splits)

lemma srv_get_market_data_shaped: "srv_get_market_data B T s tf c w = (Inr r, w') \<Longrightarrow> shaped r"
  by (auto simp: srv_get_market_data_def io_defs mt5_defs
      split: sum.splits prod.splits option.splits if_splits)

lemma get_tick_data_shaped: "get_tick_data B T s w = (Inr r, w') \<Longrightarrow> shaped r"
  by (auto simp: get_tick_data_def io_defs mt5_defs
      split: sum.splits prod.splits option.splits if_splits)

lemma srv_place_order_shaped:
  "srv_place_order B T s ot v p sl tp c w = (Inr r, w') \<Longrightarrow> shaped r"
  by (auto simp: srv_place_order_def io_defs mt5_defs
      split: sum.splits prod.splits option.splits if_splits)

lemma get_positions_shaped: "get_positions T w = (Inr r, w') \<Longrightarrow> shaped r"
  by (auto simp: get_positions_def io_defs mt5_defs
      split: sum.splits prod.splits option.splits if_splits)

lemma close_result_shaped: "close_result t res w = (Inr r, w') \<Longrightarrow> shaped r"
  by (auto simp: close_result_def io_defs split: option.splits if_splits)

lemma srv_close_position_shaped: "srv_close_position B T t w = (Inr r, w') \<Longrightarrow> shaped r"
  by (auto simp: srv_close_position_def io_defs mt5_defs dest: close_result_shaped
      split: sum.splits prod.splits option.splits list.splits if_splits)

lemma shutdown_mt5_shaped: "shutdown_mt5 T w = (Inr r, w') \<Longrightarrow> shaped r"
  by (auto simp: shutdown_mt5_def io_defs mt5_defs
      split: sum.splits prod.splits option.splits if_splits)

lemma bnd_unpack_cases:
  "bnd (lift (unpack B f args)) k w = (Inr r, w') \<Longrightarrow>
   \<exists>xs. unpack B f args = Inr xs \<and> k xs w = (Inr r, w')"
  by (auto simp: bnd_def lift_def split: sum.splits)

lemma dispatch_shaped: "dispatch B T c a w = (Inr r, w') \<Longrightarrow> shaped r"
  unfolding dispatch_def
  apply (simp split: if_splits)
  subgoal by (rule connect_mt5_shaped)
  subgoal by (auto dest!: bnd_unpack_cases simp: arity_error_def raise_def
        dest: connect_with_credentials_shaped split: list.splits)
  subgoal by (rule get_symbols_shaped)
  subgoal by (auto dest!: bnd_unpack_cases simp: arity_error_def raise_def
        dest: srv_get_market_data_shaped split: list.splits)
  subgoal by (auto dest!: bnd_unpack_cases simp: arity_error_def raise_def
        dest: get_tick_data_shaped split: list.splits)
  subgoal by (auto dest!: bnd_unpack_cases simp: arity_error_def raise_def
        dest: srv_place_order_shaped split: list.splits)
  subgoal by (rule get_positions_shaped)
  subgoal by (auto dest!: bnd_unpack_cases simp: arity_error_def raise_def
        dest: srv_close_position_shaped split: list.splits)
  subgoal by (rule shutdown_mt5_shaped)
  subgoal by (auto simp: ret_def)
  done

subsection \<open>When the exceptions of the terminal have a text, every error message has one\<close>

lemma outcome_ret: "Q x \<Longrightarrow> outcome Q (ret x w)"
  by (simp add: outcome_def ret_def)

lemma outcome_raise: "str_exn e \<noteq> [] \<Longrightarrow> outcome Q (raise e w)"
  by (simp add: outcome_def raise_def)

lemma outcome_lift_any: "raises_text r \<Longrightarrow> outcome (\<lambda>x. True) (lift r w)"
  by (simp add: outcome_def lift_def raises_text_def split: sum.splits)

lemma outcome_bnd:
  assumes a: "outcome (\<lambda>x. True) (m w)" and b: "\<And>x w'. outcome Q (f x w')"
  shows "outcome Q (bnd m f w)"
proof -
  obtain r w1 where mw: "m w = (r, w1)" by (cases "m w")
  show ?thesis
  proof (cases r)
    case (Inl e)
    with a mw show ?thesis by (simp add: outcome_def bnd_def)
  next
    case (Inr x)
    with mw have "bnd m f w = f x w1" by (simp add: bnd_def)
    with b show ?thesis by simp
  qed
qed

lemma outcome_try_except:
  assumes a: "outcome Q (m w)" and b: "\<And>e w'. str_exn e \<noteq> [] \<Longrightarrow> outcome Q (h e w')"
  shows "outcome Q (try_except m h w)"
proof -
  obtain r w1 where mw: "m w = (r, w1)" by (cases "m w")
  show ?thesis
  proof (cases r)
    case (Inl e)
    with a mw have "str_exn e \<noteq> []" by (simp add: outcome_def)
    moreover from Inl mw have "try_except m h w = h e w1" by (simp add: try_except_def)
    ultimately show ?thesis using b by simp
  next
    case (Inr x)
    with a mw show ?thesis by (simp add: outcome_def try_except_def)
  qed
qed

lemma outcome_mt5:
  assumes "terminal_errors_have_text T"
  shows "outcome (\<lambda>x. True) (mt5_initialize T w)"
    "outcome (\<lambda>x. True) (mt5_last_error T w)"
    "outcome (\<lambda>x. True) (mt5_account_info T w)"
    "outcome (\<lambda>x. True) (mt5_shutdown T w)"
    "outcome (\<lambda>x. True) (mt5_symbols_get T w)"
    "outcome (\<lambda>x. True) (mt5_positions_get T w)"
    "outcome (\<lambda>x. True) (mt5_login T l p s w)"
    "outcome (\<lambda>x. True) (mt5_copy_rates_from_pos T sy tf st n w)"
    "outcome (\<lambda>x. True) (mt5_symbol_info_tick T sy w)"
    "outcome (\<lambda>x. True) (mt5_order_send T req w)"
    "outcome (\<lambda>x. True) (mt5_positions_get_ticket T k w)"
  using assms unfolding terminal_errors_have_text_def raises_text_def outcome_def mt5_defs
  by (simp_all split: sum.splits)

lemma py_int_text: "raises_text (py_int B v)"
  by (cases "(B, v)" rule: py_int.cases) (auto simp: raises_text_def split: option.splits)

lemma py_float_text: "raises_text (py_float B v)"
  by (cases "(B, v)" rule: py_float.cases) (auto simp: raises_text_def split: option.splits)

lemma tf_map_get_text: "raises_text (tf_map_get v)"
  by (cases v rule: tf_map_get.cases) (auto simp: raises_text_def)

lemma unpack_text: "raises_text (unpack B f v)"
  by (cases "(B, f, v)" rule: unpack.cases) (auto simp: raises_text_def)

lemma texted_failure: "msg \<noteq> [] \<Longrightarrow> texted (failure msg)"
  by (auto simp add: texted_def)

lemma texted_success:
  "map_of rest ''error'' = None \<Longrightarrow> texted (PDict ((''success'', PBool True) # rest))"
  by (simp add: texted_def)

lemmas outcome_intros =
  outcome_ret outcome_raise outcome_bnd outcome_try_except outcome_lift_any
  py_int_text py_float_text tf_map_get_text unpack_text texted_failure texted_success

lemma rates_result_texted: "texted (rates_result B s rs)"
  by (auto simp add: rates_result_def intro!: texted_failure texted_success split: option.splits)

lemma order_result_dict_texted: "texted (order_result_dict r)"
  by (auto simp add: order_result_dict_def intro!: texted_failure texted_success
      split: option.splits)

lemma connect_mt5_texted: "terminal_errors_have_text T \<Longrightarrow> outcome texted (connect_mt5 T w)"
  unfolding connect_mt5_def
  by (auto intro!: outcome_intros outcome_mt5 split: option.splits)

lemma connect_with_credentials_texted:
  "terminal_errors_have_text T \<Longrightarrow> outcome texted (connect_with_credentials B T l p s w)"
  unfolding connect_with_credentials_def
  by (auto intro!: outcome_intros outcome_mt5 split: option.splits)

lemma get_symbols_texted: "terminal_errors_have_text T \<Longrightarrow> outcome texted (get_symbols T w)"
  unfolding get_symbols_def
  by (auto intro!: outcome_intros outcome_mt5 split: option.splits)

lemma srv_get_market_data_texted:
  "terminal_errors_have_text T \<Longrightarrow> outcome texted (srv_get_market_data B T s tf c w)"
  unfolding srv_get_market_data_def
  by (auto intro!: outcome_intros outcome_mt5 rates_result_texted split: option.splits)

lemma get_tick_data_texted: "terminal_errors_have_text T \<Longrightarrow> outcome texted (get_tick_data B T s w)"
  unfolding get_tick_data_def
  by (auto intro!: outcome_intros outcome_mt5 split: option.splits)

lemma srv_place_order_texted:
  "terminal_errors_have_text T \<Longrightarrow> outcome texted (srv_place_order B T s ot v p sl tp c w)"
  unfolding srv_place_order_def
  by (auto intro!: outcome_intros outcome_mt5 order_result_dict_texted split: option.splits)

lemma get_positions_texted: "terminal_errors_have_text T \<Longrightarrow> outcome texted (get_positions T w)"
  unfolding get_positions_def
  by (auto intro!: outcome_intros outcome_mt5 split: option.splits)

lemma close_result_texted: "outcome texted (close_result t res w)"
  unfolding close_result_def
  by (auto intro!: outcome_intros simp: quoted_def split: option.splits)

lemma srv_close_position_texted:
  "terminal_errors_have_text T \<Longrightarrow> outcome texted (srv_close_position B T t w)"
  unfolding srv_close_position_def
  by (auto intro!: outcome_intros outcome_mt5 close_result_texted
      split: option.splits list.splits)

lemma shutdown_mt5_texted: "terminal_errors_have_text T \<Longrightarrow> outcome texted (shutdown_mt5 T w)"
  unfolding shutdown_mt5_def
  by (auto intro!: outcome_intros outcome_mt5)

lemma arity_error_texted: "outcome texted (arity_error B f xs w)"
  unfolding arity_error_def
  by (auto intro!: outcome_raise)

lemma dispatch_texted:
  assumes H: "terminal_errors_have_text T"
  shows "outcome texted (dispatch B T c a w)"
proof -
  have u: "\<And>f k. (\<And>xs w'. outcome texted (k xs w')) \<Longrightarrow>
              outcome texted (bnd (lift (unpack B f a)) k w)"
    by (intro outcome_bnd outcome_lift_any unpack_text)
  note g = connect_mt5_texted [OF H] connect_with_credentials_texted [OF H]
    get_symbols_texted [OF H] srv_get_market_data_texted [OF H] get_tick_data_texted [OF H]
    srv_place_order_texted [OF H] get_positions_texted [OF H] srv_close_position_texted [OF H]
    shutdown_mt5_texted [OF H] arity_error_texted
  show ?thesis
    unfolding dispatch_def
    apply (simp split: if_split)
    apply (intro conjI impI u)
             apply (simp_all add: g outcome_ret texted_failure split: list.split)
    done
qed

subsection \<open>The envelope\<close>

lemma success_payload_flag:
  assumes "success_payload r"
  shows "dict_get r ''success'' (PBool True) = Inr (PBool True) \<and> (\<forall>msg. r \<noteq> failure msg)"
  using assms by (cases r rule: success_payload.cases) (auto simp: failure_def)

lemma process_command_dispatch:
  "process_command B T (PDict kvs) w =
     (case dispatch B T (case map_of kvs ''command'' of Some v \<Rightarrow> v | None \<Rightarrow> PNone)
             (case map_of kvs ''args'' of Some v \<Rightarrow> v | None \<Rightarrow> PList []) w of
        (Inl e, w') \<Rightarrow>
          (Inr (PDict [(''id'', case map_of kvs ''id'' of Some v \<Rightarrow> v | None \<Rightarrow> PNone),
                       (''success'', PBool False), (''error'', PStr (str_exn e))]), w')
      | (Inr r, w') \<Rightarrow>
          (case dict_get r ''success'' (PBool True) of
             Inl e \<Rightarrow>
               (Inr (PDict [(''id'', case map_of kvs ''id'' of Some v \<Rightarrow> v | None \<Rightarrow> PNone),
                            (''success'', PBool False), (''error'', PStr (str_exn e))]), w')
           | Inr b \<Rightarrow>
               (Inr (PDict [(''id'', case map_of kvs ''id'' of Some v \<Rightarrow> v | None \<Rightarrow> PNone),
                            (''success'', b), (''result'', r)]), w')))"
  by (simp add: process_command_def io_defs split: prod.splits sum.splits)

lemma failure_flag:
  "dict_get (failure msg) ''success'' (PBool True) = Inr (PBool False)"
  "\<not> success_payload (failure msg)"
  "(failure msg = failure msg') = (msg = msg')"
  by (simp_all add: failure_def)

text \<open>
  C1, as the code has it. For every command message that is a JSON object, whatever
  the command, the arguments and the terminal's behaviour, \<open>process_command\<close> returns
  (it does not raise) an envelope with the request's \<open>id\<close>, and which one is decided by
  the dispatched operation, \<open>command\<close> and \<open>args\<close> being what \<open>data.get\<close> yields:
  \<^item> when the dispatch raises \<open>e\<close>, the envelope is \<open>{id, success: False, error: str(e)}\<close>;
  \<^item> when it returns a success payload \<open>r\<close>, the envelope is \<open>{id, success: True, result: r}\<close>;
  \<^item> when it returns anything else, that result is \<open>{success: False, error: msg}\<close> and the
    envelope is \<open>{id, success: False, result: {success: False, error: msg}}\<close>.
  So a result payload and a top-level error are never both present and never both
  absent. The message, \<open>str(e)\<close> or \<open>msg\<close>, is not empty provided the exceptions of the
  terminal carry a text.
\<close>

theorem process_command_envelope:
  assumes "dict_get (PDict kvs) ''id'' PNone = Inr command_id"
    and "dict_get (PDict kvs) ''command'' PNone = Inr command"
    and "dict_get (PDict kvs) ''args'' (PList []) = Inr args"
  shows
    "(\<forall>e w'. dispatch B T command args w = (Inl e, w') \<longrightarrow>
        process_command B T (PDict kvs) w =
          (Inr (PDict [(''id'', command_id), (''success'', PBool False),
                       (''error'', PStr (str_exn e))]), w') \<and>
        (terminal_errors_have_text T \<longrightarrow> str_exn e \<noteq> [])) \<and>
     (\<forall>r w'. dispatch B T command args w = (Inr r, w') \<and> success_payload r \<longrightarrow>
        process_command B T (PDict kvs) w =
          (Inr (PDict [(''id'', command_id), (''success'', PBool True), (''result'', r)]), w')) \<and>
     (\<forall>r w'. dispatch B T command args w = (Inr r, w') \<and> \<not> success_payload r \<longrightarrow>
        (\<exists>msg. r = PDict [(''success'', PBool False), (''error'', PStr msg)] \<and>
               (terminal_errors_have_text T \<longrightarrow> msg \<noteq> []) \<and>
               process_command B T (PDict kvs) w =
                 (Inr (PDict [(''id'', command_id), (''success'', PBool False),
                              (''result'', PDict [(''success'', PBool False),
                                                  (''error'', PStr msg)])]), w')))"
proof -
  have cid: "command_id = (case map_of kvs ''id'' of Some v \<Rightarrow> v | None \<Rightarrow> PNone)"
    and cmd: "command = (case map_of kvs ''command'' of Some v \<Rightarrow> v | None \<Rightarrow> PNone)"
    and ar: "args = (case map_of kvs ''args'' of Some v \<Rightarrow> v | None \<Rightarrow> PList [])"
    using assms by simp_all
  have t: "outcome texted (dispatch B T command args w)" if "terminal_errors_have_text T"
    using that by (rule dispatch_texted)
  have raised: "process_command B T (PDict kvs) w =
        (Inr (PDict [(''id'', command_id), (''success'', PBool False),
                     (''error'', PStr (str_exn e))]), w') \<and>
        (terminal_errors_have_text T \<longrightarrow> str_exn e \<noteq> [])"
    if d: "dispatch B T command args w = (Inl e, w')" for e w'
  proof -
    have "str_exn e \<noteq> []" if "terminal_errors_have_text T"
      using t [OF that] d by (simp add: outcome_def)
    moreover have "process_command B T (PDict kvs) w =
        (Inr (PDict [(''id'', command_id), (''success'', PBool False),
                     (''error'', PStr (str_exn e))]), w')"
      using d by (simp add: process_command_dispatch cid [symmetric] cmd [symmetric]
          ar [symmetric])
    ultimately show ?thesis by simp
  qed
  have succeeded: "process_command B T (PDict kvs) w =
        (Inr (PDict [(''id'', command_id), (''success'', PBool True), (''result'', r)]), w')"
    if d: "dispatch B T command args w = (Inr r, w')" and sp: "success_payload r" for r w'
    using d sp
    by (simp add: process_command_dispatch cid [symmetric] cmd [symmetric] ar [symmetric]
        success_payload_flag)
  have failed: "\<exists>msg. r = PDict [(''success'', PBool False), (''error'', PStr msg)] \<and>
               (terminal_errors_have_text T \<longrightarrow> msg \<noteq> []) \<and>
               process_command B T (PDict kvs) w =
                 (Inr (PDict [(''id'', command_id), (''success'', PBool False),
                              (''result'', PDict [(''success'', PBool False),
                                                  (''error'', PStr msg)])]), w')"
    if d: "dispatch B T command args w = (Inr r, w')" and nsp: "\<not> success_payload r" for r w'
  proof -
    from d have "shaped r" by (auto dest: dispatch_shaped)
    with nsp obtain msg where r: "r = failure msg" by (auto simp: shaped_def)
    have "msg \<noteq> []" if "terminal_errors_have_text T"
      using t [OF that] d r by (auto simp add: outcome_def texted_def failure_flag)
    moreover have "process_command B T (PDict kvs) w =
          (Inr (PDict [(''id'', command_id), (''success'', PBool False),
                       (''result'', failure msg)]), w')"
      using d r
      by (simp add: process_command_dispatch cid [symmetric] cmd [symmetric] ar [symmetric]
          failure_flag)
    ultimately show ?thesis using r by (simp add: failure_def)
  qed
  show ?thesis
    using raised succeeded failed by blast
qed

theorem process_command_envelope_witness:
  "terminal_errors_have_text demo_terminal \<and>
   dispatch demo_builtins demo_terminal (PStr ''get_positions'') (PList []) w0 =
     (Inr (PDict [(''success'', PBool True),
                  (''positions'', PList [position_dict demo_buy_position,
                                         position_dict demo_sell_position])]),
      \<lparr>calls = [CPositionsGet], out = []\<rparr>) \<and>
   process_command demo_builtins demo_terminal
       (PDict [(''id'', PInt 1), (''command'', PStr ''get_positions'')]) w0 =
     (Inr (PDict [(''id'', PInt 1), (''success'', PBool True),
                  (''result'', PDict [(''success'', PBool True),
                     (''positions'', PList [position_dict demo_buy_position,
                                            position_dict demo_sell_position])])]),
      \<lparr>calls = [CPositionsGet], out = []\<rparr>) \<and>
   dispatch demo_builtins demo_terminal (PStr ''get_tick'') (PList []) w0 =
     (Inl (Exn TypeError
        ''MT5BridgeServer.get_tick_data() called with a wrong number of positional arguments''),
      w0) \<and>
   process_command demo_builtins demo_terminal
       (PDict [(''id'', PInt 4), (''command'', PStr ''get_tick''), (''args'', PList [])]) w0 =
     (Inr (PDict [(''id'', PInt 4), (''success'', PBool False),
                  (''error'', PStr
                     ''MT5BridgeServer.get_tick_data() called with a wrong number of positional arguments'')]),
      \<lparr>calls = [], out = []\<rparr>) \<and>
   dispatch demo_builtins demo_terminal (PStr ''get_tick'') (PList [PStr ''EURUSD'']) w0 =
     (Inr (PDict [(''success'', PBool False),
                  (''error'', PStr ''Failed to get tick for EURUSD'')]),
      \<lparr>calls = [CSymbolInfoTick (PStr ''EURUSD'')], out = []\<rparr>) \<and>
   process_command demo_builtins demo_terminal
       (PDict [(''id'', PInt 5), (''command'', PStr ''get_tick''),
               (''args'', PList [PStr ''EURUSD''])]) w0 =
     (Inr (PDict [(''id'', PInt 5), (''success'', PBool False),
                  (''result'', PDict [(''success'', PBool False),
                                      (''error'', PStr ''Failed to get tick for EURUSD'')])]),
      \<lparr>calls = [CSymbolInfoTick (PStr ''EURUSD'')], out = []\<rparr>)"
  using process_command_envelope
      [of "[(''id'', PInt 1), (''command'', PStr ''get_positions'')]" "PInt 1"
          "PStr ''get_positions''" "PList []" demo_builtins demo_terminal w0]
    process_command_envelope
      [of "[(''id'', PInt 4), (''command'', PStr ''get_tick''), (''args'', PList [])]" "PInt 4"
          "PStr ''get_tick''" "PList []" demo_builtins demo_terminal w0]
    process_command_envelope
      [of "[(''id'', PInt 5), (''command'', PStr ''get_tick''),
            (''args'', PList [PStr ''EURUSD''])]" "PInt 5"
          "PStr ''get_tick''" "PList [PStr ''EURUSD'']" demo_builtins demo_terminal w0]
  by (simp add: terminal_errors_have_text_def raises_text_def demo_builtins_def
      demo_terminal_def w0_def process_command_def dispatch_def get_positions_def
      get_tick_data_def arity_error_def failure_def io_defs mt5_defs)

text \<open>
  C1 as the claim states it fails when an operation reports a failure itself: the
  envelope for closing a ticket that no position has carries \<open>success\<close> false together
  with a \<open>result\<close> payload, and no \<open>error\<close> key of its own.
\<close>

theorem process_command_envelope_counterexample:
  "process_command demo_builtins demo_terminal
       (PDict [(''id'', PInt 3), (''command'', PStr ''close_position''),
               (''args'', PList [PInt 9])]) w0 =
     (Inr (PDict [(''id'', PInt 3), (''success'', PBool False),
                  (''result'', PDict [(''success'', PBool False),
                                      (''error'', PStr ''Position 9 not found'')])]),
      \<lparr>calls = [CPositionsGetTicket 9], out = []\<rparr>)"
  by (simp add: demo_builtins_def demo_terminal_def w0_def process_command_def dispatch_def
      srv_close_position_def failure_def str_int_def str_nat.simps io_defs mt5_defs)

end
